theory Spec2Isabelle
  imports Complex_Main "HOL-Library.Log_Nat"
begin

section \<open>The intervention dashboard of app.py: data model\<close>

text \<open>
  The program is a script: its variables live in one global namespace, the prediction is
  written inline in two nested loops (app.py, lines 110 to 208) and no function is
  defined for it. The embedding follows that shape. The variables the loops assign are
  the fields of the record \<open>env\<close>; each assignment of the source is one field update, in
  the source's order; a loop is a recursion over the list it iterates.

  Numbers. The coefficients, the levels and the predicted values are Python floats. The
  definitions below are polymorphic in the number type \<open>'a\<close> and ask of it only the
  operations the source uses (\<open>0\<close>, \<open>1\<close>, \<open>+\<close>, \<open>*\<close>, \<open>-\<close>), so every theorem stated for
  \<open>'a\<close> uses no law of arithmetic and holds for rounded arithmetic as well as for exact
  arithmetic. Where a theorem needs more it is stated for \<open>real\<close> (exact arithmetic) or for
  \<open>binary64\<close>, a model of the double precision numbers with the rounding written out.
  The float literal \<open>1.0\<close> is the constant \<open>1\<close>, the integer literal \<open>0\<close> that
  \<open>beta.get(name, 0)\<close> falls back to is \<open>0\<close>.
\<close>

datatype py_error = KeyError string

text \<open>
  A pandas Series indexed by coefficient names is a map from names to numbers, a
  DataFrame a map from column names to such Series (row and column labels are taken to
  be unique, as they are in the cleaned files the script loads).
\<close>

type_synonym 'a series = "string \<rightharpoonup> 'a"
type_synonym 'a dataframe = "string \<rightharpoonup> 'a series"

text \<open>\<open>beta.get(name, 0)\<close>: the entry of the Series, \<open>0\<close> where the label is absent.\<close>

definition coef :: "'a::zero series \<Rightarrow> string \<Rightarrow> 'a" where
  "coef tbl name = (case tbl name of None \<Rightarrow> 0 | Some v \<Rightarrow> v)"

subsection \<open>Formatting an integer, as an f-string does\<close>

definition digit_char :: "nat \<Rightarrow> char" where
  "digit_char d = ''0123456789'' ! d"

function str_nat :: "nat \<Rightarrow> string" where
  "str_nat n = (if n < 10 then [digit_char n] else str_nat (n div 10) @ [digit_char (n mod 10)])"
  by pat_completeness auto
termination
  by (relation "measure id") auto

declare str_nat.simps [simp del]

definition str_int :: "int \<Rightarrow> string" where
  "str_int i = (if i < 0 then CHR ''-'' # str_nat (nat (- i)) else str_nat (nat i))"

subsection \<open>The constant tables of the script\<close>

definition INTERVENTION_OPTIONS :: "string \<rightharpoonup> string" where
  "INTERVENTION_OPTIONS = map_of
    [(''Diabetes Incidence Reduction'', ''pdiabe''),
     (''Heart Disease Incidence Reduction'', ''phearte''),
     (''Hypertension Incidence Reduction'', ''phibpe''),
     (''MCI/Dementia Incidence Reduction'', ''pcogstate'')]"

definition OUTCOME_OPTIONS :: "string \<rightharpoonup> string" where
  "OUTCOME_OPTIONS = map_of
    [(''Population'', ''n_startpop''),
     (''Nursing Home Population'', ''n_nhmliv''),
     (''Population with Dementia'', ''n_cogstate1''),
     (''Dementia Prevalence (%)'', ''p_cogstate1''),
     (''Population with MCI'', ''n_cogstate2''),
     (''MCI Prevalence (%)'', ''p_cogstate2''),
     (''Population with Diabetes'', ''n_diabe''),
     (''Diabetes Prevalence (%)'', ''p_diabe''),
     (''Population with Heart Disease'', ''n_hearte''),
     (''Heart Disease Prevalence (%)'', ''p_hearte''),
     (''Population with Hypertension'', ''n_hibpe''),
     (''Hypertension Prevalence (%)'', ''p_hibpe'')]"

definition SUBGROUP_OPTIONS :: "string \<rightharpoonup> string" where
  "SUBGROUP_OPTIONS = map_of
    [(''Age 55-64'', ''5564''),
     (''Age 65-74'', ''6574''),
     (''Age 75-84'', ''7584''),
     (''Age 85+'', ''85p''),
     (''All'', ''all''),
     (''Non-Hispanic black'', ''blk''),
     (''At least some college'', ''college''),
     (''Female'', ''f''),
     (''Hispanic'', ''his''),
     (''Hispanic female'', ''his_f''),
     (''GED or less than high school'', ''hsless''),
     (''Male'', ''m''),
     (''Non-Hispanic white'', ''wht'')]"

subsection \<open>The namespace of the script\<close>

text \<open>
  One field for each variable the simulation assigns or reads, under the source's name.
  \<open>errors\<close> collects the messages given to \<open>st.error\<close>, in order. A variable that
  Python has not bound yet holds an arbitrary value here; the theorems on the loop body
  show that no such value is ever read.
\<close>

record 'a env =
  intervention_levels :: "string \<rightharpoonup> 'a"
  results_df :: "string \<rightharpoonup> 'a list"
  valid_plot :: bool
  errors :: "string list"
  key :: string
  df :: "'a dataframe option"
  beta :: "'a series"
  baseline_values :: "'a list"
  intervention_values :: "'a list"
  diff_values :: "'a list"
  year_inc :: int
  b_cons :: 'a
  b_year :: 'a
  base_val :: 'a
  inter_val :: 'a
  L1 :: 'a
  L2 :: 'a
  b_iv1 :: 'a
  b_year_iv1 :: 'a
  b_iv2 :: 'a
  b_year_iv2 :: 'a
  b_iv1_iv2 :: 'a
  b_year_iv1_iv2 :: 'a

section \<open>The prediction for one year (app.py, lines 129 to 189)\<close>

text \<open>Lines 148 to 171: the branch taken when \<open>key == "pcogstate"\<close>.\<close>

definition pcogstate_branch :: "'a::{zero,one,plus,times} env \<Rightarrow> py_error + 'a env" where
  "pcogstate_branch s =
    (case intervention_levels s ''pcogstate_1'' of
       None \<Rightarrow> Inl (KeyError ''pcogstate_1'')
     | Some l1 \<Rightarrow>
    (case intervention_levels s ''pcogstate_2'' of
       None \<Rightarrow> Inl (KeyError ''pcogstate_2'')
     | Some l2 \<Rightarrow>
       (let s1 = s\<lparr>L1 := l1\<rparr>;
            s2 = s1\<lparr>L2 := l2\<rparr>;
            s3 = s2\<lparr>b_iv1 := coef (beta s2) ''ivparm1''\<rparr>;
            s4 = s3\<lparr>b_year_iv1 := coef (beta s3) (str_int (year_inc s3) @ ''.year_inc#c.ivparm1'')\<rparr>;
            s5 = s4\<lparr>b_iv2 := coef (beta s4) ''ivparm2''\<rparr>;
            s6 = s5\<lparr>b_year_iv2 := coef (beta s5) (str_int (year_inc s5) @ ''.year_inc#c.ivparm2'')\<rparr>;
            s7 = s6\<lparr>b_iv1_iv2 := coef (beta s6) ''c.ivparm1#c.ivparm2''\<rparr>;
            s8 = s7\<lparr>b_year_iv1_iv2 :=
                      coef (beta s7) (str_int (year_inc s7) @ ''.year_inc#c.ivparm1#c.ivparm2'')\<rparr>;
            s9 = s8\<lparr>base_val :=
                      b_cons s8 + b_year s8 +
                      b_iv1 s8 * 1 + b_year_iv1 s8 * 1 +
                      b_iv2 s8 * 1 + b_year_iv2 s8 * 1 +
                      b_iv1_iv2 s8 * 1 * 1 + b_year_iv1_iv2 s8 * 1 * 1\<rparr>
        in Inr (s9\<lparr>inter_val :=
                      b_cons s9 + b_year s9 +
                      b_iv1 s9 * L1 s9 + b_year_iv1 s9 * L1 s9 +
                      b_iv2 s9 * L2 s9 + b_year_iv2 s9 * L2 s9 +
                      b_iv1_iv2 s9 * L1 s9 * L2 s9 + b_year_iv1_iv2 s9 * L1 s9 * L2 s9\<rparr>))))"

text \<open>Lines 177 to 186: the branch of every other key.\<close>

definition standard_branch :: "'a::{zero,one,plus,times} env \<Rightarrow> py_error + 'a env" where
  "standard_branch s =
    (case intervention_levels s (key s) of
       None \<Rightarrow> Inl (KeyError (key s))
     | Some l1 \<Rightarrow>
       (let s1 = s\<lparr>L1 := l1\<rparr>;
            s2 = s1\<lparr>b_iv1 := coef (beta s1) ''ivparm1''\<rparr>;
            s3 = s2\<lparr>b_year_iv1 := coef (beta s2) (str_int (year_inc s2) @ ''.year_inc#c.ivparm1'')\<rparr>;
            s4 = s3\<lparr>base_val := b_cons s3 + b_year s3 + b_iv1 s3 * 1 + b_year_iv1 s3 * 1\<rparr>
        in Inr (s4\<lparr>inter_val := b_cons s4 + b_year s4 + b_iv1 s4 * L1 s4 + b_year_iv1 s4 * L1 s4\<rparr>)))"

text \<open>Lines 188 and 189: the two values are appended to the two series.\<close>

definition append_values :: "'a env \<Rightarrow> 'a env" where
  "append_values s =
    (let s1 = s\<lparr>baseline_values := baseline_values s @ [base_val s]\<rparr>
     in s1\<lparr>intervention_values := intervention_values s1 @ [inter_val s1]\<rparr>)"

text \<open>The body of \<open>for year in year_range\<close>, lines 130 to 189.\<close>

definition year_body :: "int \<Rightarrow> 'a::{zero,one,plus,times} env \<Rightarrow> py_error + 'a env" where
  "year_body year s =
    (let s1 = s\<lparr>year_inc := year - 2024\<rparr>;
         s2 = s1\<lparr>b_cons := coef (beta s1) ''_cons''\<rparr>;
         s3 = s2\<lparr>b_year := coef (beta s2) (str_int (year_inc s2) @ ''.year_inc'')\<rparr>;
         s4 = s3\<lparr>base_val := 0\<rparr>;
         s5 = s4\<lparr>inter_val := 0\<rparr>
     in case (if key s5 = ''pcogstate'' then pcogstate_branch s5 else standard_branch s5) of
          Inl e \<Rightarrow> Inl e
        | Inr s6 \<Rightarrow> Inr (append_values s6))"

fun year_loop :: "int list \<Rightarrow> 'a::{zero,one,plus,times} env \<Rightarrow> py_error + 'a env" where
  "year_loop [] s = Inr s"
| "year_loop (year # years) s =
     (case year_body year s of Inl e \<Rightarrow> Inl e | Inr s' \<Rightarrow> year_loop years s')"

section \<open>One selected intervention (app.py, lines 110 to 208)\<close>

text \<open>
  \<open>year_range = list(range(start_year, end_year + 1, 2))\<close>: \<open>range_by_two a b\<close> lists
  \<open>a\<close>, \<open>a + 2\<close>, ... below \<open>b\<close>.
\<close>

function range_by_two :: "int \<Rightarrow> int \<Rightarrow> int list" where
  "range_by_two a b = (if a < b then a # range_by_two (a + 2) b else [])"
  by pat_completeness auto
termination
  by (relation "measure (\<lambda>(a, b). nat (b - a))") auto

declare range_by_two.simps [simp del]

text \<open>The two messages given to \<open>st.error\<close> (lines 115 and 119).\<close>

definition not_loaded_message :: "string \<Rightarrow> string" where
  "not_loaded_message k = ''Dataset for '' @ k @ '' not loaded.''"

definition no_column_message :: "string \<Rightarrow> string \<Rightarrow> string" where
  "no_column_message target_col k =
     ''Column '' @ [CHR 0x27] @ target_col @ [CHR 0x27] @ '' not found in '' @ k @ '' dataset.''"

text \<open>Lines 198 to 208: the three columns are stored and the run is marked as plottable.\<close>

definition store_results :: "string \<Rightarrow> 'a::minus env \<Rightarrow> 'a env" where
  "store_results display_name s =
    (let s1 = s\<lparr>results_df := (results_df s)(''Baseline ('' @ display_name @ '')'' \<mapsto> baseline_values s)\<rparr>;
         s2 = s1\<lparr>results_df :=
                   (results_df s1)(''Intervention ('' @ display_name @ '')'' \<mapsto> intervention_values s1)\<rparr>;
         s3 = s2\<lparr>diff_values :=
                   map (\<lambda>(i, b). i - b) (zip (intervention_values s2) (baseline_values s2))\<rparr>;
         s4 = s3\<lparr>results_df := (results_df s3)(''Baseline ('' @ display_name @ '')'' \<mapsto> baseline_values s3)\<rparr>;
         s5 = s4\<lparr>results_df :=
                   (results_df s4)(''Intervention ('' @ display_name @ '')'' \<mapsto> intervention_values s4)\<rparr>;
         s6 = s5\<lparr>results_df := (results_df s5)(''Change ('' @ display_name @ '')'' \<mapsto> diff_values s5)\<rparr>
     in s6\<lparr>valid_plot := True\<rparr>)"

text \<open>
  The body of \<open>for display_name in selected_interventions\<close>. Each \<open>continue\<close> of the
  source is a branch that returns the namespace with one more message and nothing else
  changed but \<open>key\<close> and \<open>df\<close>.
\<close>

definition intervention_body ::
  "(string \<rightharpoonup> 'a dataframe) \<Rightarrow> string \<Rightarrow> int list \<Rightarrow> string \<Rightarrow>
   'a::{zero,one,plus,times,minus} env \<Rightarrow> py_error + 'a env" where
  "intervention_body df_dict target_col year_range display_name s =
    (case INTERVENTION_OPTIONS display_name of
       None \<Rightarrow> Inl (KeyError display_name)
     | Some k \<Rightarrow>
       (let s1 = s\<lparr>key := k\<rparr>;
            s2 = s1\<lparr>df := df_dict (key s1)\<rparr>
        in case df s2 of
             None \<Rightarrow> Inr (s2\<lparr>errors := errors s2 @ [not_loaded_message (key s2)]\<rparr>)
           | Some d \<Rightarrow>
             (case d target_col of
                None \<Rightarrow> Inr (s2\<lparr>errors := errors s2 @ [no_column_message target_col (key s2)]\<rparr>)
              | Some column \<Rightarrow>
                (let s3 = s2\<lparr>beta := column\<rparr>;
                     s4 = s3\<lparr>baseline_values := []\<rparr>;
                     s5 = s4\<lparr>intervention_values := []\<rparr>
                 in case year_loop year_range s5 of
                      Inl e \<Rightarrow> Inl e
                    | Inr s6 \<Rightarrow> Inr (store_results display_name s6)))))"

fun intervention_loop ::
  "(string \<rightharpoonup> 'a dataframe) \<Rightarrow> string \<Rightarrow> int list \<Rightarrow> string list \<Rightarrow>
   'a::{zero,one,plus,times,minus} env \<Rightarrow> py_error + 'a env" where
  "intervention_loop df_dict target_col year_range [] s = Inr s"
| "intervention_loop df_dict target_col year_range (display_name # rest) s =
     (case intervention_body df_dict target_col year_range display_name s of
        Inl e \<Rightarrow> Inl e
      | Inr s' \<Rightarrow> intervention_loop df_dict target_col year_range rest s')"

section \<open>The sidebar and the run (app.py, lines 84 to 340)\<close>

text \<open>
  Lines 84 to 91: one slider for each selected intervention, two for \<open>pcogstate\<close>. The
  value a slider returns is the user's choice; \<open>slider\<close> gives it for each label.
\<close>

fun build_levels ::
  "(string \<Rightarrow> 'a) \<Rightarrow> string list \<Rightarrow> (string \<rightharpoonup> 'a) \<Rightarrow> py_error + (string \<rightharpoonup> 'a)" where
  "build_levels slider [] levels = Inr levels"
| "build_levels slider (item # items) levels =
     (case INTERVENTION_OPTIONS item of
        None \<Rightarrow> Inl (KeyError item)
      | Some k \<Rightarrow>
          if k = ''pcogstate''
          then build_levels slider items
                 ((levels(''pcogstate_1'' \<mapsto> slider ''Dementia Prevalence Reduction''))
                    (''pcogstate_2'' \<mapsto> slider ''MCI Prevalence Reduction''))
          else build_levels slider items (levels(k \<mapsto> slider (item @ '' Level''))))"

text \<open>
  The charts (lines 213 to 340). A trace is kept as the column of \<open>results_df\<close> it plots,
  its x values and its y values; labels, colours and layout are left out. The column
  \<open>Year\<close> of \<open>results_df\<close> is \<open>year_range\<close> (line 102) and is not stored in the map
  \<open>results_df\<close>, which holds the columns of numbers; it is the \<open>trace_x\<close> of every trace.
\<close>

record 'a trace =
  column_name :: string
  trace_x :: "int list"
  trace_y :: "'a list"

text \<open>
  \<open>if col in results_df.columns\<close>, then \<open>y_val = results_df[col]\<close>, times 100 when the
  outcome's name contains a percent sign.
\<close>

definition column_trace ::
  "string \<Rightarrow> int list \<Rightarrow> string \<Rightarrow> 'a::{times,numeral} env \<Rightarrow> 'a trace list" where
  "column_trace selected_outcome year_range col s =
    (case results_df s col of
       None \<Rightarrow> []
     | Some y_val \<Rightarrow>
         [\<lparr>column_name = col, trace_x = year_range,
           trace_y = (if CHR ''%'' \<in> set selected_outcome then map (\<lambda>v. v * 100) y_val else y_val)\<rparr>])"

text \<open>Lines 228 to 234: the levels are read again for the label of the trace.\<close>

definition label_levels :: "string \<Rightarrow> 'a env \<Rightarrow> py_error + 'a list" where
  "label_levels k s =
    (if k = ''pcogstate'' then
       (case intervention_levels s ''pcogstate_1'' of
          None \<Rightarrow> Inl (KeyError ''pcogstate_1'')
        | Some l1 \<Rightarrow>
          (case intervention_levels s ''pcogstate_2'' of
             None \<Rightarrow> Inl (KeyError ''pcogstate_2'')
           | Some l2 \<Rightarrow> Inr [l1, l2]))
     else
       (case intervention_levels s k of
          None \<Rightarrow> Inl (KeyError k)
        | Some level \<Rightarrow> Inr [level]))"

fun fig_traces ::
  "string \<Rightarrow> int list \<Rightarrow> string list \<Rightarrow> 'a::{times,numeral} env \<Rightarrow> py_error + 'a trace list" where
  "fig_traces selected_outcome year_range [] s = Inr []"
| "fig_traces selected_outcome year_range (display_name # rest) s =
     (case INTERVENTION_OPTIONS display_name of
        None \<Rightarrow> Inl (KeyError display_name)
      | Some k \<Rightarrow>
        (case label_levels k s of
           Inl e \<Rightarrow> Inl e
         | Inr _ \<Rightarrow>
           (case fig_traces selected_outcome year_range rest s of
              Inl e \<Rightarrow> Inl e
            | Inr traces \<Rightarrow>
                Inr (column_trace selected_outcome year_range (''Baseline ('' @ display_name @ '')'') s @
                     column_trace selected_outcome year_range (''Intervention ('' @ display_name @ '')'') s @
                     traces))))"

definition fig_diff_traces ::
  "string \<Rightarrow> int list \<Rightarrow> string list \<Rightarrow> 'a::{times,numeral} env \<Rightarrow> 'a trace list" where
  "fig_diff_traces selected_outcome year_range selected_interventions s =
     concat (map (\<lambda>display_name.
        column_trace selected_outcome year_range (''Change ('' @ display_name @ '')'') s)
        selected_interventions)"

text \<open>
  What a run shows: \<open>Stopped\<close> is \<open>st.stop()\<close> (line 211), after which nothing more is
  rendered; \<open>Charts\<close> carries the traces of the two figures. Both carry the messages
  reported by \<open>st.error\<close>.
\<close>

datatype 'a outcome =
  Stopped "string list"
| Charts "string list" "'a trace list" "'a trace list"

text \<open>
  The block under \<open>if st.sidebar.button("Run Simulation")\<close>. The namespace \<open>s\<close> it starts
  from holds the levels of the sidebar; the page shows no message yet.
\<close>

definition run_simulation ::
  "(string \<rightharpoonup> 'a dataframe) \<Rightarrow> string \<Rightarrow> string \<Rightarrow> string list \<Rightarrow> int \<Rightarrow> int \<Rightarrow>
   'a::{zero,one,plus,times,minus,numeral} env \<Rightarrow> py_error + 'a outcome" where
  "run_simulation df_dict selected_outcome selected_subgroup selected_interventions
      start_year end_year s =
    (case OUTCOME_OPTIONS selected_outcome of
       None \<Rightarrow> Inl (KeyError selected_outcome)
     | Some outcome_code \<Rightarrow>
       (case SUBGROUP_OPTIONS selected_subgroup of
          None \<Rightarrow> Inl (KeyError selected_subgroup)
        | Some subgroup_code \<Rightarrow>
          (let target_col = outcome_code @ ''_'' @ subgroup_code;
               year_range = range_by_two start_year (end_year + 1);
               s0 = s\<lparr>errors := []\<rparr>;
               s1 = s0\<lparr>results_df := Map.empty\<rparr>;
               s2 = s1\<lparr>valid_plot := False\<rparr>
           in case intervention_loop df_dict target_col year_range selected_interventions s2 of
                Inl e \<Rightarrow> Inl e
              | Inr s3 \<Rightarrow>
                  if \<not> valid_plot s3 then Inr (Stopped (errors s3))
                  else
                    (case fig_traces selected_outcome year_range selected_interventions s3 of
                       Inl e \<Rightarrow> Inl e
                     | Inr traces \<Rightarrow>
                         Inr (Charts (errors s3) traces
                                (fig_diff_traces selected_outcome year_range
                                   selected_interventions s3))))))"

section \<open>The predictor, and the formulas of the specification\<close>

text \<open>
  The script has no function for the prediction; the predictor of the specification is
  the pair \<open>(base_val, inter_val)\<close> that one pass through the loop body leaves in the
  namespace.
\<close>

definition predictor :: "int \<Rightarrow> 'a::{zero,one,plus,times} env \<Rightarrow> py_error + 'a \<times> 'a" where
  "predictor year s =
     (case year_body year s of Inl e \<Rightarrow> Inl e | Inr s' \<Rightarrow> Inr (base_val s', inter_val s'))"

text \<open>
  The definitions that follow are written from the specification's section 4.1, not from
  the source, to be compared with the source: the lookup that defaults to zero, the
  single-level formula (step 3) and the two-level formula (step 4).
\<close>

definition spec_lookup :: "'a::zero series \<Rightarrow> string \<Rightarrow> 'a" where
  "spec_lookup tbl name = (if name \<in> dom tbl then the (tbl name) else 0)"

definition spec_single :: "'a::{zero,one,plus,times} series \<Rightarrow> int \<Rightarrow> 'a \<Rightarrow> 'a \<times> 'a" where
  "spec_single tbl year level1 =
    (let Y = year - 2024;
         cons = spec_lookup tbl ''_cons'';
         yr = spec_lookup tbl (str_int Y @ ''.year_inc'');
         iv1 = spec_lookup tbl ''ivparm1'';
         yr_iv1 = spec_lookup tbl (str_int Y @ ''.year_inc#c.ivparm1'');
         val = (\<lambda>L. cons + yr + iv1 * L + yr_iv1 * L)
     in (val 1, val level1))"

definition spec_two :: "'a::{zero,one,plus,times} series \<Rightarrow> int \<Rightarrow> 'a \<Rightarrow> 'a \<Rightarrow> 'a \<times> 'a" where
  "spec_two tbl year level1 level2 =
    (let Y = year - 2024;
         cons = spec_lookup tbl ''_cons'';
         yr = spec_lookup tbl (str_int Y @ ''.year_inc'');
         iv1 = spec_lookup tbl ''ivparm1'';
         yr_iv1 = spec_lookup tbl (str_int Y @ ''.year_inc#c.ivparm1'');
         iv2 = spec_lookup tbl ''ivparm2'';
         yr_iv2 = spec_lookup tbl (str_int Y @ ''.year_inc#c.ivparm2'');
         iv1_iv2 = spec_lookup tbl ''c.ivparm1#c.ivparm2'';
         yr_iv1_iv2 = spec_lookup tbl (str_int Y @ ''.year_inc#c.ivparm1#c.ivparm2'');
         val = (\<lambda>A B. cons + yr + iv1 * A + yr_iv1 * A + iv2 * B + yr_iv2 * B
                        + iv1_iv2 * A * B + yr_iv1_iv2 * A * B)
     in (val 1 1, val level1 level2))"

text \<open>
  The value of the predictor in closed form, as a function of the three things the loop
  body reads: the key of the intervention, the levels and the coefficient table.
\<close>

definition predict_cases ::
  "string \<Rightarrow> (string \<rightharpoonup> 'a) \<Rightarrow> 'a::{zero,one,plus,times} series \<Rightarrow> int \<Rightarrow> py_error + 'a \<times> 'a" where
  "predict_cases k levels tbl year =
    (if k = ''pcogstate'' then
       (case levels ''pcogstate_1'' of
          None \<Rightarrow> Inl (KeyError ''pcogstate_1'')
        | Some l1 \<Rightarrow>
          (case levels ''pcogstate_2'' of
             None \<Rightarrow> Inl (KeyError ''pcogstate_2'')
           | Some l2 \<Rightarrow> Inr (spec_two tbl year l1 l2)))
     else
       (case levels k of
          None \<Rightarrow> Inl (KeyError k)
        | Some l \<Rightarrow> Inr (spec_single tbl year l)))"

fun series_cases ::
  "string \<Rightarrow> (string \<rightharpoonup> 'a) \<Rightarrow> 'a::{zero,one,plus,times} series \<Rightarrow> int list \<Rightarrow>
   py_error + ('a \<times> 'a) list" where
  "series_cases k levels tbl [] = Inr []"
| "series_cases k levels tbl (year # years) =
     (case predict_cases k levels tbl year of
        Inl e \<Rightarrow> Inl e
      | Inr p \<Rightarrow>
        (case series_cases k levels tbl years of Inl e \<Rightarrow> Inl e | Inr ps \<Rightarrow> Inr (p # ps)))"

text \<open>What a step that may fail returns, looked at through \<open>f\<close>; an error stays as it is.\<close>

definition on_result :: "('a \<Rightarrow> 'b) \<Rightarrow> py_error + 'a \<Rightarrow> py_error + 'b" where
  "on_result f r = (case r of Inl e \<Rightarrow> Inl e | Inr x \<Rightarrow> Inr (f x))"

text \<open>Whether the levels that the loop body reads for key \<open>k\<close> are there.\<close>

definition levels_present :: "string \<Rightarrow> (string \<rightharpoonup> 'a) \<Rightarrow> bool" where
  "levels_present k levels =
     (if k = ''pcogstate'' then levels ''pcogstate_1'' \<noteq> None \<and> levels ''pcogstate_2'' \<noteq> None
      else levels k \<noteq> None)"

text \<open>Whether every level that the loop body reads for key \<open>k\<close> is 1.\<close>

definition levels_all_one :: "string \<Rightarrow> (string \<rightharpoonup> 'a::one) \<Rightarrow> bool" where
  "levels_all_one k levels =
     (if k = ''pcogstate'' then levels ''pcogstate_1'' = Some 1 \<and> levels ''pcogstate_2'' = Some 1
      else levels k = Some 1)"

text \<open>The three columns of \<open>results_df\<close> that belong to one intervention.\<close>

definition columns :: "string \<Rightarrow> 'a env \<Rightarrow> 'a list option \<times> 'a list option \<times> 'a list option" where
  "columns display_name s =
     (results_df s (''Baseline ('' @ display_name @ '')''),
      results_df s (''Intervention ('' @ display_name @ '')''),
      results_df s (''Change ('' @ display_name @ '')''))"

text \<open>
  An intervention is usable when its dataset is loaded and has the selected column;
  \<open>skip_message\<close> is what is reported for one that is not.
\<close>

definition usable :: "(string \<rightharpoonup> 'a dataframe) \<Rightarrow> string \<Rightarrow> string \<Rightarrow> bool" where
  "usable df_dict target_col display_name =
     (case INTERVENTION_OPTIONS display_name of
        None \<Rightarrow> False
      | Some k \<Rightarrow> (case df_dict k of None \<Rightarrow> False | Some d \<Rightarrow> d target_col \<noteq> None))"

definition skip_message :: "(string \<rightharpoonup> 'a dataframe) \<Rightarrow> string \<Rightarrow> string \<Rightarrow> string" where
  "skip_message df_dict target_col display_name =
     (case INTERVENTION_OPTIONS display_name of
        None \<Rightarrow> []
      | Some k \<Rightarrow>
          (case df_dict k of
             None \<Rightarrow> not_loaded_message k
           | Some d \<Rightarrow> no_column_message target_col k))"

text \<open>The four coefficient names that only the two-level formula reads, for year offset \<open>Y\<close>.\<close>

definition ivparm2_family :: "int \<Rightarrow> string list" where
  "ivparm2_family Y =
     [''ivparm2'', str_int Y @ ''.year_inc#c.ivparm2'', ''c.ivparm1#c.ivparm2'',
      str_int Y @ ''.year_inc#c.ivparm1#c.ivparm2'']"

text \<open>A namespace in which nothing is bound yet, for the examples.\<close>

definition blank_env :: "'a::zero env" where
  "blank_env =
     \<lparr>intervention_levels = Map.empty, results_df = Map.empty, valid_plot = False, errors = [],
      key = [], df = None, beta = Map.empty, baseline_values = [], intervention_values = [],
      diff_values = [], year_inc = 0, b_cons = 0, b_year = 0, base_val = 0, inter_val = 0,
      L1 = 0, L2 = 0, b_iv1 = 0, b_year_iv1 = 0, b_iv2 = 0, b_year_iv2 = 0, b_iv1_iv2 = 0,
      b_year_iv1_iv2 = 0\<rparr>"

section \<open>Double precision numbers\<close>

text \<open>
  A Python float is an IEEE 754 binary64 number, and each \<open>+\<close>, \<open>-\<close>, \<open>*\<close> returns the
  exact result rounded to the nearest such number, ties to the even significand. The
  type \<open>binary64\<close> models the finite ones by their rational value: 53 significant bits,
  smallest exponent \<open>-1022\<close> (below it the spacing stays \<open>2 ^ -1074\<close>). Overflow, the
  infinities, NaN and the sign of zero are not modelled.
\<close>

datatype binary64 = B64 rat

definition pow2 :: "int \<Rightarrow> rat" where
  "pow2 e = (if 0 \<le> e then 2 ^ nat e else 1 / 2 ^ nat (- e))"

text \<open>For \<open>x > 0\<close>, the exponent \<open>e\<close> with \<open>2 ^ e \<le> x < 2 ^ (e + 1)\<close>.\<close>

definition floor_log2 :: "rat \<Rightarrow> int" where
  "floor_log2 x =
     (let (p, q) = quotient_of x; k = bitlen p - bitlen q
      in if pow2 k \<le> x then k else k - 1)"

definition round_half_even :: "rat \<Rightarrow> int" where
  "round_half_even x =
     (let f = \<lfloor>x\<rfloor>; d = x - of_int f
      in if d < 1 / 2 then f else if 1 / 2 < d then f + 1 else if even f then f else f + 1)"

definition round_binary64 :: "rat \<Rightarrow> rat" where
  "round_binary64 x =
     (if x = 0 then 0
      else let e = max (floor_log2 \<bar>x\<bar>) (- 1022); u = pow2 (e - 52)
           in of_int (round_half_even (x / u)) * u)"

instantiation binary64 :: "{zero,one,plus,times,minus}"
begin

definition zero_binary64 :: binary64 where
  "zero_binary64 = B64 0"

definition one_binary64 :: binary64 where
  "one_binary64 = B64 1"

fun plus_binary64 :: "binary64 \<Rightarrow> binary64 \<Rightarrow> binary64" where
  "plus_binary64 (B64 a) (B64 b) = B64 (round_binary64 (a + b))"

fun times_binary64 :: "binary64 \<Rightarrow> binary64 \<Rightarrow> binary64" where
  "times_binary64 (B64 a) (B64 b) = B64 (round_binary64 (a * b))"

fun minus_binary64 :: "binary64 \<Rightarrow> binary64 \<Rightarrow> binary64" where
  "minus_binary64 (B64 a) (B64 b) = B64 (round_binary64 (a - b))"

instance ..

end

text \<open>The number that a decimal literal of the program text denotes.\<close>

definition literal :: "rat \<Rightarrow> binary64" where
  "literal q = B64 (round_binary64 q)"

section \<open>Example inputs\<close>

text \<open>
  The single-level table of the specification's properties P2 and P3, and a namespace
  that selects it for the diabetes intervention at level 0.85.
\<close>

definition table_P2 :: "real series" where
  "table_P2 = map_of [(''_cons'', 10), (''2.year_inc'', 1), (''ivparm1'', - 4),
     (''2.year_inc#c.ivparm1'', - 1 / 2)]"

definition env_P3 :: "real env" where
  "env_P3 = blank_env\<lparr>intervention_levels := [''pdiabe'' \<mapsto> 17 / 20], key := ''pdiabe'',
     beta := table_P2\<rparr>"

text \<open>
  A two-level table with all eight coefficients; a namespace that selects it for
  \<open>pcogstate\<close>, and one that selects the same table for \<open>pdiabe\<close>.
\<close>

definition table_two :: "real series" where
  "table_two = map_of [(''_cons'', 10), (''2.year_inc'', 1), (''ivparm1'', - 4),
     (''2.year_inc#c.ivparm1'', - 1 / 2), (''ivparm2'', 3), (''2.year_inc#c.ivparm2'', 1 / 4),
     (''c.ivparm1#c.ivparm2'', 2), (''2.year_inc#c.ivparm1#c.ivparm2'', 1 / 8)]"

definition env_two :: "real env" where
  "env_two = blank_env\<lparr>intervention_levels := [''pcogstate_1'' \<mapsto> 1 / 2, ''pcogstate_2'' \<mapsto> 3 / 4],
     key := ''pcogstate'', beta := table_two\<rparr>"

definition env_mixed :: "real env" where
  "env_mixed = blank_env\<lparr>intervention_levels := [''pdiabe'' \<mapsto> 17 / 20], key := ''pdiabe'',
     beta := table_two\<rparr>"

text \<open>The two-level prediction on the table of P2, which has none of the \<open>ivparm2\<close> names.\<close>

definition env_sparse :: "real env" where
  "env_sparse = blank_env\<lparr>intervention_levels := [''pcogstate_1'' \<mapsto> 1 / 2, ''pcogstate_2'' \<mapsto> 3 / 4],
     key := ''pcogstate'', beta := table_P2\<rparr>"

text \<open>
  Loaded datasets: \<open>pdiabe\<close> with the column \<open>p_diabe_all\<close>, \<open>pcogstate\<close> with another
  column only, and no dataset for \<open>phearte\<close> and \<open>phibpe\<close>. \<open>env_sidebar\<close> holds the levels
  of a sidebar with three interventions selected.
\<close>

definition df_dict_example :: "string \<rightharpoonup> real dataframe" where
  "df_dict_example =
     [''pdiabe'' \<mapsto> [''p_diabe_all'' \<mapsto> table_P2],
      ''pcogstate'' \<mapsto> [''n_cogstate1_f'' \<mapsto> table_two]]"

definition env_sidebar :: "real env" where
  "env_sidebar = blank_env\<lparr>intervention_levels :=
     [''pdiabe'' \<mapsto> 17 / 20, ''pcogstate_1'' \<mapsto> 1 / 2, ''pcogstate_2'' \<mapsto> 3 / 4,
      ''phearte'' \<mapsto> 17 / 20]\<rparr>"

text \<open>
  The example of P2 and P3 run through the body of the intervention loop for the one year
  2026, in exact arithmetic and in double precision. In the second the table holds the
  doubles 10, 1, -4 and -0.5, and the level is the double that the literal \<open>0.85\<close>
  denotes.
\<close>

definition table_P2_binary64 :: "binary64 series" where
  "table_P2_binary64 = map_of [(''_cons'', B64 10), (''2.year_inc'', B64 1), (''ivparm1'', B64 (- 4)),
     (''2.year_inc#c.ivparm1'', B64 (- 1 / 2))]"

definition run_P3 :: "py_error + real env" where
  "run_P3 = intervention_body [''pdiabe'' \<mapsto> [''p_diabe_all'' \<mapsto> table_P2]] ''p_diabe_all'' [2026]
     ''Diabetes Incidence Reduction'' (blank_env\<lparr>intervention_levels := [''pdiabe'' \<mapsto> 85 / 100]\<rparr>)"

definition run_P3_binary64 :: "py_error + binary64 env" where
  "run_P3_binary64 =
     intervention_body [''pdiabe'' \<mapsto> [''p_diabe_all'' \<mapsto> table_P2_binary64]] ''p_diabe_all'' [2026]
       ''Diabetes Incidence Reduction''
       (blank_env\<lparr>intervention_levels := [''pdiabe'' \<mapsto> literal (85 / 100)]\<rparr>)"

text \<open>
  The two-level table of P4, read in two ways. In \<open>table_P4\<close> the two main effects and
  the pairwise interaction are 1 and every coefficient with a year term is 0. In
  \<open>table_P4_all\<close> the three interactions with the year are 1 as well and only the year
  trend is 0. \<open>env_P4\<close> selects a table for \<open>pcogstate\<close> with both levels at 1.
\<close>

definition table_P4 :: "real series" where
  "table_P4 = map_of [(''_cons'', 0), (''ivparm1'', 1), (''ivparm2'', 1),
     (''c.ivparm1#c.ivparm2'', 1), (''2.year_inc'', 0), (''2.year_inc#c.ivparm1'', 0),
     (''2.year_inc#c.ivparm2'', 0), (''2.year_inc#c.ivparm1#c.ivparm2'', 0)]"

definition table_P4_all :: "real series" where
  "table_P4_all = map_of [(''_cons'', 0), (''ivparm1'', 1), (''ivparm2'', 1),
     (''c.ivparm1#c.ivparm2'', 1), (''2.year_inc'', 0), (''2.year_inc#c.ivparm1'', 1),
     (''2.year_inc#c.ivparm2'', 1), (''2.year_inc#c.ivparm1#c.ivparm2'', 1)]"

definition env_P4 :: "real series \<Rightarrow> real env" where
  "env_P4 tbl = blank_env\<lparr>intervention_levels := [''pcogstate_1'' \<mapsto> 1, ''pcogstate_2'' \<mapsto> 1],
     key := ''pcogstate'', beta := tbl\<rparr>"

definition table_P4_binary64 :: "binary64 series" where
  "table_P4_binary64 = map_of [(''_cons'', B64 0), (''ivparm1'', B64 1), (''ivparm2'', B64 1),
     (''c.ivparm1#c.ivparm2'', B64 1), (''2.year_inc'', B64 0), (''2.year_inc#c.ivparm1'', B64 0),
     (''2.year_inc#c.ivparm2'', B64 0), (''2.year_inc#c.ivparm1#c.ivparm2'', B64 0)]"

section \<open>The loop body in closed form\<close>

lemma coef_spec_lookup: "coef tbl n = spec_lookup tbl n"
  by (simp add: coef_def spec_lookup_def dom_def split: option.splits)

lemma year_body_standard:
  "key s \<noteq> ''pcogstate'' \<Longrightarrow> intervention_levels s (key s) = Some l \<Longrightarrow>
   year_body year s = Inr (s\<lparr>year_inc := year - 2024,
     b_cons := coef (beta s) ''_cons'',
     b_year := coef (beta s) (str_int (year - 2024) @ ''.year_inc''),
     L1 := l,
     b_iv1 := coef (beta s) ''ivparm1'',
     b_year_iv1 := coef (beta s) (str_int (year - 2024) @ ''.year_inc#c.ivparm1''),
     base_val := fst (spec_single (beta s) year l),
     inter_val := snd (spec_single (beta s) year l),
     baseline_values := baseline_values s @ [fst (spec_single (beta s) year l)],
     intervention_values := intervention_values s @ [snd (spec_single (beta s) year l)]\<rparr>)"
  by (simp add: year_body_def standard_branch_def append_values_def spec_single_def Let_def
      coef_spec_lookup)

lemma year_body_pcogstate:
  "key s = ''pcogstate'' \<Longrightarrow> intervention_levels s ''pcogstate_1'' = Some l1 \<Longrightarrow>
   intervention_levels s ''pcogstate_2'' = Some l2 \<Longrightarrow>
   year_body year s = Inr (s\<lparr>year_inc := year - 2024,
     b_cons := coef (beta s) ''_cons'',
     b_year := coef (beta s) (str_int (year - 2024) @ ''.year_inc''),
     L1 := l1, L2 := l2,
     b_iv1 := coef (beta s) ''ivparm1'',
     b_year_iv1 := coef (beta s) (str_int (year - 2024) @ ''.year_inc#c.ivparm1''),
     b_iv2 := coef (beta s) ''ivparm2'',
     b_year_iv2 := coef (beta s) (str_int (year - 2024) @ ''.year_inc#c.ivparm2''),
     b_iv1_iv2 := coef (beta s) ''c.ivparm1#c.ivparm2'',
     b_year_iv1_iv2 := coef (beta s) (str_int (year - 2024) @ ''.year_inc#c.ivparm1#c.ivparm2''),
     base_val := fst (spec_two (beta s) year l1 l2),
     inter_val := snd (spec_two (beta s) year l1 l2),
     baseline_values := baseline_values s @ [fst (spec_two (beta s) year l1 l2)],
     intervention_values := intervention_values s @ [snd (spec_two (beta s) year l1 l2)]\<rparr>)"
  by (simp add: year_body_def pcogstate_branch_def append_values_def spec_two_def Let_def
      coef_spec_lookup)

lemma year_body_standard_error:
  "key s \<noteq> ''pcogstate'' \<Longrightarrow> intervention_levels s (key s) = None \<Longrightarrow>
   year_body year s = Inl (KeyError (key s))"
  by (simp add: year_body_def standard_branch_def Let_def)

lemma year_body_pcogstate_error1:
  "key s = ''pcogstate'' \<Longrightarrow> intervention_levels s ''pcogstate_1'' = None \<Longrightarrow>
   year_body year s = Inl (KeyError ''pcogstate_1'')"
  by (simp add: year_body_def pcogstate_branch_def Let_def)

lemma year_body_pcogstate_error2:
  "key s = ''pcogstate'' \<Longrightarrow> intervention_levels s ''pcogstate_1'' = Some l1 \<Longrightarrow>
   intervention_levels s ''pcogstate_2'' = None \<Longrightarrow>
   year_body year s = Inl (KeyError ''pcogstate_2'')"
  by (simp add: year_body_def pcogstate_branch_def Let_def)

lemma predictor_eq:
  "predictor year s = predict_cases (key s) (intervention_levels s) (beta s) year"
proof (cases "key s = ''pcogstate''")
  case True
  show ?thesis
  proof (cases "intervention_levels s ''pcogstate_1''")
    case None
    with True show ?thesis
      by (simp add: predictor_def predict_cases_def year_body_pcogstate_error1)
  next
    case first: (Some l1)
    show ?thesis
    proof (cases "intervention_levels s ''pcogstate_2''")
      case None
      with True first show ?thesis
        by (simp add: predictor_def predict_cases_def year_body_pcogstate_error2)
    next
      case (Some l2)
      with True first show ?thesis
        by (simp add: predictor_def predict_cases_def year_body_pcogstate)
    qed
  qed
next
  case False
  then show ?thesis
    by (cases "intervention_levels s (key s)")
       (simp_all add: predictor_def predict_cases_def year_body_standard_error year_body_standard)
qed

lemma year_body_frame:
  assumes "year_body year s = Inr s'"
  shows "key s' = key s" and "beta s' = beta s"
    and "intervention_levels s' = intervention_levels s"
    and "results_df s' = results_df s" and "valid_plot s' = valid_plot s"
    and "errors s' = errors s" and "df s' = df s" and "diff_values s' = diff_values s"
    and "baseline_values s' = baseline_values s @ [base_val s']"
    and "intervention_values s' = intervention_values s @ [inter_val s']"
  using assms
  by (auto simp add: year_body_def pcogstate_branch_def standard_branch_def append_values_def
      Let_def split: if_splits option.splits)

lemma predictor_from_body:
  "year_body year s = Inr s' \<Longrightarrow> predictor year s = Inr (base_val s', inter_val s')"
  by (simp add: predictor_def)

lemma predictor_error_from_body:
  "year_body year s = Inl e \<Longrightarrow> predictor year s = Inl e"
  by (simp add: predictor_def)

lemma predict_cases_Inr_iff:
  "(\<exists>r. predict_cases k levels tbl year = Inr r) \<longleftrightarrow> levels_present k levels"
  by (auto simp add: predict_cases_def levels_present_def split: option.splits)

lemma on_result_simps [simp]:
  "on_result f (Inl e) = Inl e" "on_result f (Inr x) = Inr (f x)"
  by (simp_all add: on_result_def)

section \<open>Key names\<close>

lemma str_int_2: "str_int 2 = ''2''"
  by (simp add: str_int_def str_nat.simps digit_char_def)

lemma str_int_examples:
  "str_int 0 = ''0''" "str_int 26 = ''26''" "str_int (- 12) = ''-12''" "str_int 2024 = ''2024''"
  by code_simp+

lemma last_ivparm2_family: "k \<in> set (ivparm2_family Y) \<Longrightarrow> last k = CHR ''2''"
  by (auto simp add: ivparm2_family_def)

lemma coef_upd_other: "n \<noteq> k \<Longrightarrow> coef (tbl(k := v)) n = coef tbl n"
  by (simp add: coef_def)

lemma spec_lookup_upd_other: "n \<noteq> k \<Longrightarrow> spec_lookup (tbl(k := v)) n = spec_lookup tbl n"
  by (simp add: spec_lookup_def dom_def)

lemma spec_single_ignores_ivparm2:
  assumes "k \<in> set (ivparm2_family Y)"
  shows "spec_single (tbl(k := v)) year l = spec_single tbl year l"
proof -
  from assms have k: "last k = CHR ''2''" by (rule last_ivparm2_family)
  have "''_cons'' \<noteq> k" "''ivparm1'' \<noteq> k"
    "str_int (year - 2024) @ ''.year_inc'' \<noteq> k"
    "str_int (year - 2024) @ ''.year_inc#c.ivparm1'' \<noteq> k"
    using k by auto
  then show ?thesis
    by (simp add: spec_single_def spec_lookup_upd_other)
qed

lemma spec_lookup_fill_zero: "tbl k = None \<Longrightarrow> spec_lookup (tbl(k \<mapsto> 0)) n = spec_lookup tbl n"
  by (auto simp add: spec_lookup_def dom_def)

lemma spec_single_fill_zero: "tbl k = None \<Longrightarrow> spec_single (tbl(k \<mapsto> 0)) year l = spec_single tbl year l"
  by (simp add: spec_single_def spec_lookup_fill_zero)

lemma spec_two_fill_zero: "tbl k = None \<Longrightarrow> spec_two (tbl(k \<mapsto> 0)) year l1 l2 = spec_two tbl year l1 l2"
  by (simp add: spec_two_def spec_lookup_fill_zero)

lemma predict_cases_fill_zero:
  "tbl k = None \<Longrightarrow> predict_cases a levels (tbl(k \<mapsto> 0)) year = predict_cases a levels tbl year"
  by (simp add: predict_cases_def spec_single_fill_zero spec_two_fill_zero split: option.splits)

section \<open>The series of one intervention\<close>

lemma year_loop_frame:
  "year_loop years s = Inr s' \<Longrightarrow>
   key s' = key s \<and> beta s' = beta s \<and> intervention_levels s' = intervention_levels s \<and>
   results_df s' = results_df s \<and> valid_plot s' = valid_plot s \<and> errors s' = errors s \<and>
   df s' = df s"
proof (induction years arbitrary: s)
  case Nil
  then show ?case by simp
next
  case (Cons year years)
  from Cons.prems obtain s1 where body: "year_body year s = Inr s1"
    and rest: "year_loop years s1 = Inr s'"
    by (auto split: sum.splits)
  from Cons.IH [OF rest] year_body_frame [OF body] show ?case by simp
qed

lemma year_loop_series:
  "on_result (\<lambda>s'. (baseline_values s', intervention_values s')) (year_loop years s) =
   on_result (\<lambda>ps. (baseline_values s @ map fst ps, intervention_values s @ map snd ps))
     (series_cases (key s) (intervention_levels s) (beta s) years)"
proof (induction years arbitrary: s)
  case Nil
  show ?case by simp
next
  case (Cons year years)
  show ?case
  proof (cases "year_body year s")
    case (Inl e)
    then have "predict_cases (key s) (intervention_levels s) (beta s) year = Inl e"
      using predictor_error_from_body [OF Inl] by (simp add: predictor_eq)
    with Inl show ?thesis by simp
  next
    case (Inr s1)
    have p: "predict_cases (key s) (intervention_levels s) (beta s) year
               = Inr (base_val s1, inter_val s1)"
      using predictor_from_body [OF Inr] by (simp add: predictor_eq)
    note fr = year_body_frame [OF Inr]
    have "on_result (\<lambda>s'. (baseline_values s', intervention_values s')) (year_loop years s1) =
      on_result (\<lambda>ps. (baseline_values s1 @ map fst ps, intervention_values s1 @ map snd ps))
        (series_cases (key s) (intervention_levels s) (beta s) years)"
      using Cons.IH [of s1] by (simp add: fr)
    with Inr p show ?thesis
      by (cases "series_cases (key s) (intervention_levels s) (beta s) years")
         (simp_all add: fr)
  qed
qed

lemma series_cases_nth:
  "series_cases k levels tbl years = Inr ps \<Longrightarrow>
   length ps = length years \<and>
   (\<forall>j < length years. predict_cases k levels tbl (years ! j) = Inr (ps ! j))"
proof (induction years arbitrary: ps)
  case Nil
  then show ?case by simp
next
  case (Cons year years)
  from Cons.prems obtain p qs where p: "predict_cases k levels tbl year = Inr p"
    and qs: "series_cases k levels tbl years = Inr qs" and ps: "ps = p # qs"
    by (auto split: sum.splits)
  from Cons.IH [OF qs] p ps show ?case
    by (auto simp add: nth_Cons split: nat.splits)
qed

lemma series_cases_Inr:
  "levels_present k levels \<Longrightarrow> \<exists>ps. series_cases k levels tbl years = Inr ps"
proof (induction years)
  case Nil
  show ?case by simp
next
  case (Cons year years)
  from Cons.prems obtain p where "predict_cases k levels tbl year = Inr p"
    using predict_cases_Inr_iff [of k levels tbl year] by blast
  moreover from Cons obtain ps where "series_cases k levels tbl years = Inr ps" by blast
  ultimately show ?case by simp
qed

lemma series_cases_Inl:
  "\<not> levels_present k levels \<Longrightarrow> years \<noteq> [] \<Longrightarrow> \<exists>e. series_cases k levels tbl years = Inl e"
proof (cases years)
  case Nil
  assume "years \<noteq> []" with Nil show ?thesis by simp
next
  case (Cons year rest)
  assume "\<not> levels_present k levels"
  then have "\<not> (\<exists>r. predict_cases k levels tbl year = Inr r)"
    using predict_cases_Inr_iff [of k levels tbl year] by blast
  then obtain e where "predict_cases k levels tbl year = Inl e"
    by (cases "predict_cases k levels tbl year") auto
  with Cons show ?thesis by simp
qed

section \<open>One intervention\<close>

lemma column_names_distinct:
  "''Baseline ('' @ d @ '')'' \<noteq> ''Intervention ('' @ d' @ '')''"
  "''Baseline ('' @ d @ '')'' \<noteq> ''Change ('' @ d' @ '')''"
  "''Intervention ('' @ d @ '')'' \<noteq> ''Change ('' @ d' @ '')''"
  by simp_all

lemma intervention_body_unknown:
  "INTERVENTION_OPTIONS d = None \<Longrightarrow>
   intervention_body df_dict target_col year_range d s = Inl (KeyError d)"
  by (simp add: intervention_body_def)

lemma intervention_body_skip:
  assumes "INTERVENTION_OPTIONS d = Some k" and "\<not> usable df_dict target_col d"
  shows "intervention_body df_dict target_col year_range d s =
    Inr (s\<lparr>key := k, df := df_dict k, errors := errors s @ [skip_message df_dict target_col d]\<rparr>)"
  using assms
  by (auto simp add: intervention_body_def usable_def skip_message_def Let_def split: option.splits)

lemma intervention_body_usable:
  assumes "INTERVENTION_OPTIONS d = Some k" and "df_dict k = Some frame"
    and "frame target_col = Some tbl"
  shows "on_result (\<lambda>s'. (results_df s', valid_plot s', errors s', intervention_levels s'))
           (intervention_body df_dict target_col year_range d s) =
         on_result (\<lambda>ps. ((((results_df s)
              (''Baseline ('' @ d @ '')'' \<mapsto> map fst ps))
              (''Intervention ('' @ d @ '')'' \<mapsto> map snd ps))
              (''Change ('' @ d @ '')'' \<mapsto> map (\<lambda>p. snd p - fst p) ps),
            True, errors s, intervention_levels s))
           (series_cases k (intervention_levels s) tbl year_range)"
proof -
  define s5 where "s5 = s\<lparr>key := k, df := df_dict k, beta := tbl, baseline_values := [],
    intervention_values := []\<rparr>"
  have body: "intervention_body df_dict target_col year_range d s =
    (case year_loop year_range s5 of Inl e \<Rightarrow> Inl e | Inr s6 \<Rightarrow> Inr (store_results d s6))"
    using assms by (simp add: intervention_body_def Let_def s5_def)
  have series: "on_result (\<lambda>s'. (baseline_values s', intervention_values s')) (year_loop year_range s5) =
    on_result (\<lambda>ps. (map fst ps, map snd ps)) (series_cases k (intervention_levels s) tbl year_range)"
    using year_loop_series [of year_range s5] by (simp add: s5_def)
  show ?thesis
  proof (cases "year_loop year_range s5")
    case (Inl e)
    with series body show ?thesis
      by (cases "series_cases k (intervention_levels s) tbl year_range") simp_all
  next
    case (Inr s6)
    with series obtain ps where ps: "series_cases k (intervention_levels s) tbl year_range = Inr ps"
      and vals: "baseline_values s6 = map fst ps" "intervention_values s6 = map snd ps"
      by (cases "series_cases k (intervention_levels s) tbl year_range") auto
    have zipped: "map (\<lambda>(i, b). i - b) (zip (map snd ps) (map fst ps)) = map (\<lambda>p. snd p - fst p) ps"
      by (induction ps) simp_all
    from year_loop_frame [OF Inr] have fr: "results_df s6 = results_df s" "errors s6 = errors s"
      "intervention_levels s6 = intervention_levels s"
      by (simp_all add: s5_def)
    have "results_df (store_results d s6) = (((results_df s)
              (''Baseline ('' @ d @ '')'' \<mapsto> map fst ps))
              (''Intervention ('' @ d @ '')'' \<mapsto> map snd ps))
              (''Change ('' @ d @ '')'' \<mapsto> map (\<lambda>p. snd p - fst p) ps)"
      by (simp add: store_results_def Let_def vals zipped fr)
    moreover have "valid_plot (store_results d s6)" "errors (store_results d s6) = errors s"
      "intervention_levels (store_results d s6) = intervention_levels s"
      by (simp_all add: store_results_def Let_def fr)
    ultimately show ?thesis using body Inr ps by simp
  qed
qed

section \<open>The loop over the selected interventions\<close>

lemma on_result_on_result: "on_result g (on_result f r) = on_result (\<lambda>x. g (f x)) r"
  by (cases r) simp_all

lemma intervention_body_cong:
  assumes "intervention_levels s = intervention_levels t" and "results_df s = results_df t"
    and "valid_plot s = valid_plot t"
  shows "on_result (\<lambda>s'. (intervention_levels s', results_df s', valid_plot s'))
           (intervention_body df_dict target_col year_range d s) =
         on_result (\<lambda>s'. (intervention_levels s', results_df s', valid_plot s'))
           (intervention_body df_dict target_col year_range d t)"
proof (cases "INTERVENTION_OPTIONS d")
  case None
  then show ?thesis by (simp add: intervention_body_unknown)
next
  case (Some k)
  show ?thesis
  proof (cases "usable df_dict target_col d")
    case False
    with Some assms show ?thesis by (simp add: intervention_body_skip)
  next
    case True
    with Some obtain frame tbl where fr: "df_dict k = Some frame" "frame target_col = Some tbl"
      by (auto simp add: usable_def split: option.splits)
    have "on_result (\<lambda>(r, v, e, l). (l, r, v))
        (on_result (\<lambda>s'. (results_df s', valid_plot s', errors s', intervention_levels s'))
           (intervention_body df_dict target_col year_range d s)) =
      on_result (\<lambda>(r, v, e, l). (l, r, v))
        (on_result (\<lambda>s'. (results_df s', valid_plot s', errors s', intervention_levels s'))
           (intervention_body df_dict target_col year_range d t))"
      unfolding intervention_body_usable [where df_dict = df_dict and k = k and frame = frame and target_col = target_col, OF Some fr]
        on_result_on_result
      by (simp add: assms)
    then show ?thesis by (simp add: on_result_on_result)
  qed
qed

lemma intervention_loop_cong:
  assumes "intervention_levels s = intervention_levels t" and "results_df s = results_df t"
    and "valid_plot s = valid_plot t"
  shows "on_result (\<lambda>s'. (results_df s', valid_plot s'))
           (intervention_loop df_dict target_col year_range selected s) =
         on_result (\<lambda>s'. (results_df s', valid_plot s'))
           (intervention_loop df_dict target_col year_range selected t)"
  using assms
proof (induction selected arbitrary: s t)
  case Nil
  then show ?case by simp
next
  case (Cons d rest)
  note body = intervention_body_cong [OF Cons.prems, of df_dict target_col year_range d]
  show ?case
  proof (cases "intervention_body df_dict target_col year_range d s")
    case (Inl e)
    with body have "intervention_body df_dict target_col year_range d t = Inl e"
      by (cases "intervention_body df_dict target_col year_range d t") simp_all
    with Inl show ?thesis by simp
  next
    case (Inr s1)
    with body obtain t1 where t1: "intervention_body df_dict target_col year_range d t = Inr t1"
      and agree: "intervention_levels s1 = intervention_levels t1" "results_df s1 = results_df t1"
        "valid_plot s1 = valid_plot t1"
      by (cases "intervention_body df_dict target_col year_range d t") simp_all
    from Cons.IH [OF agree] Inr t1 show ?thesis by simp
  qed
qed

lemma intervention_loop_skip:
  assumes "INTERVENTION_OPTIONS d = Some k" and "\<not> usable df_dict target_col d"
  shows "intervention_loop df_dict target_col year_range (d # rest) s =
    intervention_loop df_dict target_col year_range rest
      (s\<lparr>key := k, df := df_dict k, errors := errors s @ [skip_message df_dict target_col d]\<rparr>)"
  using assms by (simp add: intervention_body_skip)

lemma intervention_loop_none_usable:
  assumes "set selected \<subseteq> dom INTERVENTION_OPTIONS"
    and "\<forall>d \<in> set selected. \<not> usable df_dict target_col d"
  shows "\<exists>s'. intervention_loop df_dict target_col year_range selected s = Inr s' \<and>
    results_df s' = results_df s \<and> valid_plot s' = valid_plot s \<and>
    errors s' = errors s @ map (skip_message df_dict target_col) selected"
  using assms
proof (induction selected arbitrary: s)
  case Nil
  then show ?case by simp
next
  case (Cons d rest)
  from Cons.prems obtain k where k: "INTERVENTION_OPTIONS d = Some k" by auto
  from Cons.prems have d: "\<not> usable df_dict target_col d" by simp
  define s1 where
    "s1 = s\<lparr>key := k, df := df_dict k, errors := errors s @ [skip_message df_dict target_col d]\<rparr>"
  from Cons.prems have "\<exists>s'. intervention_loop df_dict target_col year_range rest s1 = Inr s' \<and>
    results_df s' = results_df s1 \<and> valid_plot s' = valid_plot s1 \<and>
    errors s' = errors s1 @ map (skip_message df_dict target_col) rest"
    by (intro Cons.IH) auto
  then show ?case
    unfolding intervention_loop_skip [OF k d] by (simp add: s1_def)
qed

lemma intervention_body_valid:
  assumes "intervention_body df_dict target_col year_range d s = Inr s'"
  shows "valid_plot s' = (valid_plot s \<or> usable df_dict target_col d)"
proof (cases "INTERVENTION_OPTIONS d")
  case None
  with assms show ?thesis by (simp add: intervention_body_unknown)
next
  case (Some k)
  show ?thesis
  proof (cases "usable df_dict target_col d")
    case False
    with Some assms show ?thesis by (auto simp add: intervention_body_skip)
  next
    case True
    with Some obtain frame tbl where fr: "df_dict k = Some frame" "frame target_col = Some tbl"
      by (auto simp add: usable_def split: option.splits)
    from intervention_body_usable [where df_dict = df_dict and k = k and frame = frame and target_col = target_col, OF Some fr,
        of year_range s] assms True show ?thesis
      by (cases "series_cases k (intervention_levels s) tbl year_range") simp_all
  qed
qed

lemma intervention_loop_valid:
  "intervention_loop df_dict target_col year_range selected s = Inr s' \<Longrightarrow>
   valid_plot s' = (valid_plot s \<or> (\<exists>d \<in> set selected. usable df_dict target_col d))"
proof (induction selected arbitrary: s)
  case Nil
  then show ?case by simp
next
  case (Cons d rest)
  from Cons.prems obtain s1 where body: "intervention_body df_dict target_col year_range d s = Inr s1"
    and rest: "intervention_loop df_dict target_col year_range rest s1 = Inr s'"
    by (auto split: sum.splits)
  from Cons.IH [OF rest] intervention_body_valid [OF body] show ?case by auto
qed

lemma run_simulation_stops:
  assumes "OUTCOME_OPTIONS selected_outcome = Some outcome_code"
    and "SUBGROUP_OPTIONS selected_subgroup = Some subgroup_code"
    and "set selected \<subseteq> dom INTERVENTION_OPTIONS"
    and "\<forall>d \<in> set selected. \<not> usable df_dict (outcome_code @ ''_'' @ subgroup_code) d"
  shows "run_simulation df_dict selected_outcome selected_subgroup selected start_year end_year s =
    Inr (Stopped (map (skip_message df_dict (outcome_code @ ''_'' @ subgroup_code)) selected))"
proof -
  define s2 where "s2 = s\<lparr>errors := [], results_df := Map.empty, valid_plot := False\<rparr>"
  from intervention_loop_none_usable [OF assms(3,4), of "range_by_two start_year (end_year + 1)" s2]
  obtain s3 where "intervention_loop df_dict (outcome_code @ ''_'' @ subgroup_code)
      (range_by_two start_year (end_year + 1)) selected s2 = Inr s3"
    and "valid_plot s3 = valid_plot s2"
    and "errors s3 = errors s2 @ map (skip_message df_dict (outcome_code @ ''_'' @ subgroup_code)) selected"
    by blast
  then show ?thesis
    using assms(1,2) by (simp add: run_simulation_def Let_def s2_def)
qed

section \<open>The run does not fail on the levels of its own sidebar\<close>

text \<open>
  The levels are written by the sidebar loop for the same selection that the run reads
  them for, so no lookup of a level fails and a run always ends in \<open>Stopped\<close> or in
  \<open>Charts\<close>.
\<close>

lemma levels_present_dom:
  "levels_present k levels \<longleftrightarrow>
     (if k = ''pcogstate'' then ''pcogstate_1'' \<in> dom levels \<and> ''pcogstate_2'' \<in> dom levels
      else k \<in> dom levels)"
  by (auto simp add: levels_present_def)

lemma levels_present_mono:
  "levels_present k levels \<Longrightarrow> dom levels \<subseteq> dom levels' \<Longrightarrow> levels_present k levels'"
  by (auto simp add: levels_present_dom split: if_splits)

lemma build_levels_dom:
  "build_levels slider items levels = Inr levels' \<Longrightarrow>
   dom levels \<subseteq> dom levels' \<and>
   (\<forall>d \<in> set items. \<exists>k. INTERVENTION_OPTIONS d = Some k \<and> levels_present k levels')"
proof (induction items arbitrary: levels)
  case Nil
  then show ?case by simp
next
  case (Cons item items)
  from Cons.prems obtain k where k: "INTERVENTION_OPTIONS item = Some k"
    by (auto split: option.splits)
  define step where "step =
    (if k = ''pcogstate''
     then (levels(''pcogstate_1'' \<mapsto> slider ''Dementia Prevalence Reduction''))
            (''pcogstate_2'' \<mapsto> slider ''MCI Prevalence Reduction'')
     else levels(k \<mapsto> slider (item @ '' Level'')))"
  from Cons.prems k have rest: "build_levels slider items step = Inr levels'"
    by (simp add: step_def split: if_splits)
  from Cons.IH [OF rest] have sub: "dom step \<subseteq> dom levels'"
    and others: "\<forall>d \<in> set items. \<exists>k. INTERVENTION_OPTIONS d = Some k \<and> levels_present k levels'"
    by simp_all
  have "levels_present k step" and "dom levels \<subseteq> dom step"
    by (auto simp add: step_def levels_present_def)
  with sub have "levels_present k levels'" and "dom levels \<subseteq> dom levels'"
    by (auto intro: levels_present_mono)
  with k others show ?case by simp
qed

lemma intervention_body_total:
  assumes "INTERVENTION_OPTIONS d = Some k" and "levels_present k (intervention_levels s)"
  shows "\<exists>s'. intervention_body df_dict target_col year_range d s = Inr s' \<and>
    intervention_levels s' = intervention_levels s"
proof (cases "usable df_dict target_col d")
  case False
  with assms(1) show ?thesis by (simp add: intervention_body_skip)
next
  case True
  with assms(1) obtain frame tbl where fr: "df_dict k = Some frame" "frame target_col = Some tbl"
    by (auto simp add: usable_def split: option.splits)
  from series_cases_Inr [OF assms(2)] obtain ps
    where "series_cases k (intervention_levels s) tbl year_range = Inr ps" by blast
  with intervention_body_usable [where df_dict = df_dict and k = k and frame = frame
      and target_col = target_col, OF assms(1) fr, of year_range s]
  show ?thesis
    by (cases "intervention_body df_dict target_col year_range d s") simp_all
qed

lemma intervention_loop_total:
  assumes "\<forall>d \<in> set selected. \<exists>k. INTERVENTION_OPTIONS d = Some k \<and>
      levels_present k (intervention_levels s)"
  shows "\<exists>s'. intervention_loop df_dict target_col year_range selected s = Inr s' \<and>
    intervention_levels s' = intervention_levels s"
  using assms
proof (induction selected arbitrary: s)
  case Nil
  show ?case by simp
next
  case (Cons d rest)
  from Cons.prems obtain k where k: "INTERVENTION_OPTIONS d = Some k"
    and l: "levels_present k (intervention_levels s)" by auto
  from intervention_body_total [OF k l] obtain s1
    where s1: "intervention_body df_dict target_col year_range d s = Inr s1"
      and lv: "intervention_levels s1 = intervention_levels s" by blast
  from Cons.prems lv have "\<forall>d \<in> set rest. \<exists>k. INTERVENTION_OPTIONS d = Some k \<and>
      levels_present k (intervention_levels s1)" by simp
  from Cons.IH [OF this] s1 lv show ?case by simp
qed

lemma fig_traces_total:
  assumes "\<forall>d \<in> set selected. \<exists>k. INTERVENTION_OPTIONS d = Some k \<and>
      levels_present k (intervention_levels s)"
  shows "\<exists>traces. fig_traces selected_outcome year_range selected s = Inr traces"
  using assms
proof (induction selected)
  case Nil
  show ?case by simp
next
  case (Cons d rest)
  from Cons.prems obtain k where k: "INTERVENTION_OPTIONS d = Some k"
    and l: "levels_present k (intervention_levels s)" by auto
  from l obtain ls where "label_levels k s = Inr ls"
    by (auto simp add: label_levels_def levels_present_def split: if_splits)
  moreover from Cons obtain traces
    where "fig_traces selected_outcome year_range rest s = Inr traces" by auto
  ultimately show ?case using k by simp
qed

lemma run_simulation_total:
  assumes "OUTCOME_OPTIONS selected_outcome = Some outcome_code"
    and "SUBGROUP_OPTIONS selected_subgroup = Some subgroup_code"
    and "build_levels slider selected Map.empty = Inr (intervention_levels s)"
  shows "\<exists>shown. run_simulation df_dict selected_outcome selected_subgroup selected
      start_year end_year s = Inr shown"
proof -
  define s2 where "s2 = s\<lparr>errors := [], results_df := Map.empty, valid_plot := False\<rparr>"
  from build_levels_dom [OF assms(3)]
  have lv: "\<forall>d \<in> set selected. \<exists>k. INTERVENTION_OPTIONS d = Some k \<and>
      levels_present k (intervention_levels s2)"
    by (simp add: s2_def)
  from intervention_loop_total [OF lv] obtain s3
    where s3: "intervention_loop df_dict (outcome_code @ ''_'' @ subgroup_code)
      (range_by_two start_year (end_year + 1)) selected s2 = Inr s3"
      and "intervention_levels s3 = intervention_levels s2" by blast
  with lv have "\<forall>d \<in> set selected. \<exists>k. INTERVENTION_OPTIONS d = Some k \<and>
      levels_present k (intervention_levels s3)" by simp
  from fig_traces_total [OF this] obtain traces
    where "fig_traces selected_outcome (range_by_two start_year (end_year + 1)) selected s3
      = Inr traces" by blast
  with s3 assms(1,2) show ?thesis
    by (simp add: run_simulation_def Let_def s2_def)
qed

text \<open>With at least one usable intervention, such a run ends in \<open>Charts\<close>.\<close>

lemma run_simulation_charts:
  assumes "OUTCOME_OPTIONS selected_outcome = Some outcome_code"
    and "SUBGROUP_OPTIONS selected_subgroup = Some subgroup_code"
    and "build_levels slider selected Map.empty = Inr (intervention_levels s)"
    and "\<exists>d \<in> set selected. usable df_dict (outcome_code @ ''_'' @ subgroup_code) d"
  shows "\<exists>messages fig fig_diff.
    run_simulation df_dict selected_outcome selected_subgroup selected start_year end_year s
      = Inr (Charts messages fig fig_diff)"
proof -
  define s2 where "s2 = s\<lparr>errors := [], results_df := Map.empty, valid_plot := False\<rparr>"
  from build_levels_dom [OF assms(3)]
  have lv: "\<forall>d \<in> set selected. \<exists>k. INTERVENTION_OPTIONS d = Some k \<and>
      levels_present k (intervention_levels s2)"
    by (simp add: s2_def)
  from intervention_loop_total [OF lv] obtain s3
    where s3: "intervention_loop df_dict (outcome_code @ ''_'' @ subgroup_code)
      (range_by_two start_year (end_year + 1)) selected s2 = Inr s3"
      and "intervention_levels s3 = intervention_levels s2" by blast
  with lv have "\<forall>d \<in> set selected. \<exists>k. INTERVENTION_OPTIONS d = Some k \<and>
      levels_present k (intervention_levels s3)" by simp
  from fig_traces_total [OF this] obtain traces
    where tr: "fig_traces selected_outcome (range_by_two start_year (end_year + 1)) selected s3
      = Inr traces" by blast
  from intervention_loop_valid [OF s3] assms(4) have "valid_plot s3" by simp
  with s3 tr assms(1,2) show ?thesis
    by (simp add: run_simulation_def Let_def s2_def)
qed

section \<open>Rounding to double precision\<close>

text \<open>
  Two facts that fix what \<open>round_binary64\<close> is: \<open>floor_log2\<close> is the binary
  exponent, and the rounded value is within half a unit in the last place.
\<close>

lemma round_half_even_nearest: "\<bar>of_int (round_half_even x) - x\<bar> \<le> 1 / 2"
proof -
  have "of_int \<lfloor>x\<rfloor> \<le> x" "x < of_int \<lfloor>x\<rfloor> + 1" by linarith+
  then show ?thesis
    by (auto simp add: round_half_even_def Let_def abs_le_iff)
qed

lemma pow2_pos: "0 < pow2 e"
  by (simp add: pow2_def)

lemma round_binary64_error:
  "\<bar>round_binary64 x - x\<bar> \<le> pow2 (max (floor_log2 \<bar>x\<bar>) (- 1022) - 52) / 2"
proof (cases "x = 0")
  case True
  then show ?thesis using pow2_pos [of "max (floor_log2 \<bar>x\<bar>) (- 1022) - 52"]
    by (simp add: round_binary64_def)
next
  case False
  define u where "u = pow2 (max (floor_log2 \<bar>x\<bar>) (- 1022) - 52)"
  have u: "0 < u" by (simp add: u_def pow2_pos)
  have "round_binary64 x - x = (of_int (round_half_even (x / u)) - x / u) * u"
    using False u by (simp add: round_binary64_def Let_def u_def [symmetric] algebra_simps)
  then have "\<bar>round_binary64 x - x\<bar> = \<bar>of_int (round_half_even (x / u)) - x / u\<bar> * u"
    using u by (simp add: abs_mult)
  also have "\<dots> \<le> (1 / 2) * u"
    using round_half_even_nearest [of "x / u"] u by (intro mult_right_mono) simp_all
  finally show ?thesis by (simp add: u_def)
qed

lemma pow2_powi: "pow2 e = 2 powi e"
  by (simp add: pow2_def power_int_def inverse_eq_divide power_one_over)

lemma bitlen_powi_bounds:
  assumes "0 < p"
  shows "(2::rat) powi (bitlen p - 1) \<le> of_int p" and "of_int p < (2::rat) powi (bitlen p)"
proof -
  from bitlen_bounds [OF assms] have lo: "2 ^ nat (bitlen p - 1) \<le> p" and hi: "p < 2 ^ nat (bitlen p)"
    by simp_all
  have pos: "1 \<le> bitlen p" using assms by (auto simp add: bitlen_alt_def)
  from lo have "(of_int (2 ^ nat (bitlen p - 1)) :: rat) \<le> of_int p" by (rule of_int_le_iff [THEN iffD2])
  with pos show "(2::rat) powi (bitlen p - 1) \<le> of_int p"
    by (simp add: power_int_def)
  from hi have "(of_int p :: rat) < of_int (2 ^ nat (bitlen p))" by (rule of_int_less_iff [THEN iffD2])
  with pos show "of_int p < (2::rat) powi (bitlen p)"
    by (simp add: power_int_def)
qed

lemma floor_log2_bounds:
  assumes "0 < x"
  shows "pow2 (floor_log2 x) \<le> x \<and> x < pow2 (floor_log2 x + 1)"
proof -
  obtain p q where pq: "quotient_of x = (p, q)" by (cases "quotient_of x")
  then have q: "0 < q" by (rule quotient_of_denom_pos)
  from pq have x: "x = of_int p / of_int q" by (rule quotient_of_div)
  with assms q have p: "0 < p" by (simp add: zero_less_divide_iff)
  define k where "k = bitlen p - bitlen q"
  have qr: "(0::rat) < of_int q" using q by simp
  have "x < 2 powi (bitlen p) / 2 powi (bitlen q - 1)"
    unfolding x using bitlen_powi_bounds [OF p] bitlen_powi_bounds [OF q] qr p
    by (intro frac_less) simp_all
  also have "\<dots> = 2 powi (bitlen p - (bitlen q - 1))"
    by (simp add: power_int_diff)
  also have "bitlen p - (bitlen q - 1) = k + 1"
    by (simp add: k_def)
  finally have hi: "x < pow2 (k + 1)" by (simp add: pow2_powi)
  have "2 powi (bitlen p - 1) / 2 powi (bitlen q) < x"
    unfolding x using bitlen_powi_bounds [OF p] bitlen_powi_bounds [OF q] qr p
    by (intro frac_less2) simp_all
  moreover have "2 powi (bitlen p - 1) / (2::rat) powi (bitlen q) = 2 powi (bitlen p - 1 - bitlen q)"
    by (simp add: power_int_diff)
  moreover have "bitlen p - 1 - bitlen q = k - 1"
    by (simp add: k_def)
  ultimately have lo: "pow2 (k - 1) \<le> x" by (simp add: pow2_powi)
  show ?thesis
  proof (cases "pow2 k \<le> x")
    case True
    with hi pq show ?thesis by (simp add: floor_log2_def k_def)
  next
    case False
    with lo pq show ?thesis by (simp add: floor_log2_def k_def)
  qed
qed

text \<open>
  Known values: the double of the literal \<open>0.85\<close>, and the sum \<open>0.1 + 0.2\<close>, which is
  \<open>0.30000000000000004\<close> and not the double of the literal \<open>0.3\<close>.
\<close>

lemma binary64_examples:
  "literal (85 / 100) = B64 (7656119366529843 / 2 ^ 53)"
  "literal (1 / 10) + literal (2 / 10) = B64 (1351079888211149 / 2 ^ 52)"
  "literal (3 / 10) = B64 (5404319552844595 / 2 ^ 54)"
  "literal (1 / 10) + literal (2 / 10) \<noteq> literal (3 / 10)"
  by code_simp+

lemma binary64_minus_self: "(v::binary64) - v = 0"
  by (cases v) (simp add: round_binary64_def zero_binary64_def)

section \<open>The examples, evaluated\<close>

lemma spec_single_table_two: "spec_single table_two 2026 (17 / 20) = (13 / 2, 287 / 40)"
  by (simp add: spec_single_def spec_lookup_def table_two_def str_int_2)

lemma spec_two_table_two: "spec_two table_two 2026 (1 / 2) (3 / 4) = (95 / 8, 767 / 64)"
  by (simp add: spec_two_def spec_lookup_def table_two_def str_int_2)

lemma spec_two_table_P2: "spec_two table_P2 2026 (1 / 2) (3 / 4) = (13 / 2, 35 / 4)"
  by (simp add: spec_two_def spec_lookup_def table_P2_def str_int_2)

lemma example_lookups:
  "INTERVENTION_OPTIONS ''Heart Disease Incidence Reduction'' = Some ''phearte''"
  "INTERVENTION_OPTIONS ''MCI/Dementia Incidence Reduction'' = Some ''pcogstate''"
  "INTERVENTION_OPTIONS ''Diabetes Incidence Reduction'' = Some ''pdiabe''"
  "OUTCOME_OPTIONS ''Diabetes Prevalence (%)'' = Some ''p_diabe''"
  "SUBGROUP_OPTIONS ''All'' = Some ''all''"
  by (simp_all add: INTERVENTION_OPTIONS_def OUTCOME_OPTIONS_def SUBGROUP_OPTIONS_def)

lemma example_unusable:
  "\<not> usable df_dict_example ''p_diabe_all'' ''Heart Disease Incidence Reduction''"
  "\<not> usable df_dict_example ''p_diabe_all'' ''MCI/Dementia Incidence Reduction''"
  "usable df_dict_example ''p_diabe_all'' ''Diabetes Incidence Reduction''"
  by (simp_all add: usable_def example_lookups df_dict_example_def)

lemma example_messages:
  "skip_message df_dict_example ''p_diabe_all'' ''Heart Disease Incidence Reduction''
     = ''Dataset for phearte not loaded.''"
  "skip_message df_dict_example ''p_diabe_all'' ''MCI/Dementia Incidence Reduction''
     = ''Column '' @ [CHR 0x27] @ ''p_diabe_all'' @ [CHR 0x27] @ '' not found in pcogstate dataset.''"
  by (simp_all add: skip_message_def example_lookups df_dict_example_def not_loaded_message_def
      no_column_message_def)

text \<open>The years of the default range of the slider, and of two shorter ranges.\<close>

lemma range_by_two_example:
  "range_by_two 2026 (2050 + 1) =
     [2026, 2028, 2030, 2032, 2034, 2036, 2038, 2040, 2042, 2044, 2046, 2048, 2050]"
  "range_by_two 2030 (2033 + 1) = [2030, 2032]"
  "range_by_two 2030 (2030 + 1) = [2030]"
  by code_simp+

text \<open>
  A run with one intervention that is skipped and one that is plotted; the outcome is a
  percentage, so the plotted values are the predictions times 100.
\<close>

lemma run_simulation_example:
  "run_simulation df_dict_example ''Diabetes Prevalence (%)'' ''All''
     [''Heart Disease Incidence Reduction'', ''Diabetes Incidence Reduction''] 2026 2026 env_sidebar =
   Inr (Charts [''Dataset for phearte not loaded.'']
     [\<lparr>column_name = ''Baseline (Diabetes Incidence Reduction)'', trace_x = [2026], trace_y = [650]\<rparr>,
      \<lparr>column_name = ''Intervention (Diabetes Incidence Reduction)'', trace_x = [2026],
        trace_y = [1435 / 2]\<rparr>]
     [\<lparr>column_name = ''Change (Diabetes Incidence Reduction)'', trace_x = [2026],
        trace_y = [135 / 2]\<rparr>])"
  by code_simp

section \<open>The columns of one intervention\<close>

lemma predict_cases_levels_one:
  "levels_all_one k levels \<Longrightarrow> \<exists>v. predict_cases k levels tbl year = Inr (v, v)"
  by (auto simp add: levels_all_one_def predict_cases_def spec_single_def spec_two_def Let_def
      split: if_splits)

lemma series_cases_levels_one:
  "levels_all_one k levels \<Longrightarrow>
   \<exists>vs. length vs = length years \<and> series_cases k levels tbl years = Inr (map (\<lambda>v. (v, v)) vs)"
proof (induction years)
  case Nil
  show ?case by simp
next
  case (Cons year years)
  from predict_cases_levels_one [OF Cons.prems] obtain v
    where v: "predict_cases k levels tbl year = Inr (v, v)" by blast
  from Cons obtain vs where vs: "length vs = length years"
    "series_cases k levels tbl years = Inr (map (\<lambda>v. (v, v)) vs)" by blast
  have "length (v # vs) = length (year # years) \<and>
    series_cases k levels tbl (year # years) = Inr (map (\<lambda>v. (v, v)) (v # vs))"
    using v vs by simp
  then show ?case by blast
qed

lemma intervention_body_Inr:
  assumes "INTERVENTION_OPTIONS d = Some k" and "df_dict k = Some frame"
    and "frame target_col = Some tbl" and "levels_present k (intervention_levels s)"
  shows "\<exists>s'. intervention_body df_dict target_col year_range d s = Inr s'"
proof -
  from series_cases_Inr [OF assms(4)] obtain ps
    where "series_cases k (intervention_levels s) tbl year_range = Inr ps" by blast
  with intervention_body_usable [where df_dict = df_dict and k = k and frame = frame
      and target_col = target_col, OF assms(1-3), of year_range s]
  show ?thesis
    by (cases "intervention_body df_dict target_col year_range d s") simp_all
qed

lemma intervention_body_columns:
  assumes "INTERVENTION_OPTIONS d = Some k" and "df_dict k = Some frame"
    and "frame target_col = Some tbl"
    and "intervention_body df_dict target_col year_range d s = Inr s'"
  shows "\<exists>ps. series_cases k (intervention_levels s) tbl year_range = Inr ps \<and>
    results_df s' (''Baseline ('' @ d @ '')'') = Some (map fst ps) \<and>
    results_df s' (''Intervention ('' @ d @ '')'') = Some (map snd ps) \<and>
    results_df s' (''Change ('' @ d @ '')'') = Some (map (\<lambda>p. snd p - fst p) ps)"
  using intervention_body_usable [where df_dict = df_dict and k = k and frame = frame
      and target_col = target_col, OF assms(1-3), of year_range s] assms(4)
  by (cases "series_cases k (intervention_levels s) tbl year_range") auto

lemma intervention_body_levels_one:
  assumes self: "\<And>v::'a::{zero,one,plus,times,minus}. v - v = 0"
    and "INTERVENTION_OPTIONS d = Some k" and "df_dict k = Some frame"
    and "frame target_col = Some tbl" and "levels_all_one k (intervention_levels s)"
  shows "\<exists>s' vs. intervention_body df_dict target_col year_range d (s::'a env) = Inr s' \<and>
     length vs = length year_range \<and>
     columns d s' = (Some vs, Some vs, Some (replicate (length year_range) 0))"
proof -
  from series_cases_levels_one [OF assms(5)] obtain vs where len: "length vs = length year_range"
    and ser: "series_cases k (intervention_levels s) tbl year_range = Inr (map (\<lambda>v. (v, v)) vs)"
    by blast
  from intervention_body_usable [where df_dict = df_dict and k = k and frame = frame
      and target_col = target_col, OF assms(2-4), of year_range s] ser
  obtain s' where run: "intervention_body df_dict target_col year_range d s = Inr s'"
    by (cases "intervention_body df_dict target_col year_range d s") simp_all
  from intervention_body_columns [OF assms(2-4) run] ser
  have "columns d s' = (Some vs, Some vs, Some (map (\<lambda>v. v - v) vs))"
    by (auto simp add: columns_def comp_def)
  moreover have "map (\<lambda>v. v - v) vs = replicate (length year_range) 0"
    using len by (simp add: self map_replicate_const)
  ultimately show ?thesis using run len by auto
qed

lemma levels_one_binary64:
  fixes s :: "binary64 env"
  assumes "INTERVENTION_OPTIONS d = Some k" and "df_dict k = Some frame"
    and "frame target_col = Some tbl" and "levels_all_one k (intervention_levels s)"
  shows "\<exists>s' vs. intervention_body df_dict target_col year_range d s = Inr s' \<and>
     length vs = length year_range \<and>
     columns d s' = (Some vs, Some vs, Some (replicate (length year_range) 0))"
  using binary64_minus_self assms by (rule intervention_body_levels_one)

lemma predict_cases_ignores_ivparm2:
  "a \<noteq> ''pcogstate'' \<Longrightarrow> k \<in> set (ivparm2_family Y) \<Longrightarrow>
   predict_cases a levels (tbl(k := v)) year = predict_cases a levels tbl year"
  by (simp add: predict_cases_def spec_single_ignores_ivparm2 split: option.splits)

section \<open>The claims of the specification\<close>

text \<open>
  C1. Whenever the key is not \<open>pcogstate\<close> and its level \<open>level1\<close> is there, one pass of
  the loop body for \<open>year\<close> succeeds. It leaves \<open>year - 2024\<close> in \<open>year_inc\<close>; it leaves
  in \<open>b_cons\<close>, \<open>b_year\<close>, \<open>b_iv1\<close> and \<open>b_year_iv1\<close> the entries of the table under the
  names \<open>_cons\<close>, \<open>{year_inc}.year_inc\<close>, \<open>ivparm1\<close> and \<open>{year_inc}.year_inc#c.ivparm1\<close>,
  each 0 where the table has no such name; and the predictor is the pair
  \<open>(value 1, value level1)\<close> of the single-level formula
  \<open>value L = b_cons + b_year + b_iv1 * L + b_year_iv1 * L\<close> (\<open>spec_single\<close>). This holds
  for every number type.
\<close>

theorem C1_single_level_formula:
  assumes "key s \<noteq> ''pcogstate''" and "intervention_levels s (key s) = Some level1"
  shows "\<exists>s'. year_body year s = Inr s' \<and>
      year_inc s' = year - 2024 \<and>
      b_cons s' = spec_lookup (beta s) ''_cons'' \<and>
      b_year s' = spec_lookup (beta s) (str_int (year - 2024) @ ''.year_inc'') \<and>
      b_iv1 s' = spec_lookup (beta s) ''ivparm1'' \<and>
      b_year_iv1 s' = spec_lookup (beta s) (str_int (year - 2024) @ ''.year_inc#c.ivparm1'') \<and>
      predictor year s = Inr (spec_single (beta s) year level1)"
  using assms
  by (simp add: year_body_standard coef_spec_lookup predictor_eq predict_cases_def)

theorem C1_single_level_formula_witness:
  "key env_P3 \<noteq> ''pcogstate'' \<and> intervention_levels env_P3 (key env_P3) = Some (17 / 20) \<and>
   predictor 2026 env_P3 = Inr (13 / 2, 287 / 40)"
proof -
  have k: "key env_P3 \<noteq> ''pcogstate''"
    by (simp add: env_P3_def blank_env_def)
  have l: "intervention_levels env_P3 (key env_P3) = Some (17 / 20)"
    by (simp add: env_P3_def blank_env_def)
  have "spec_single (beta env_P3) 2026 (17 / 20) = (13 / 2, 287 / 40)"
    by (simp add: spec_single_def spec_lookup_def env_P3_def blank_env_def table_P2_def str_int_2)
  with C1_single_level_formula [OF k l, of 2026] k l show ?thesis by auto
qed

text \<open>
  C2. Whenever the key is \<open>pcogstate\<close> and its two levels are there, one pass of the loop
  body succeeds; the eight coefficients are the entries of the table under the eight
  documented names, each 0 where the table has no such name, and the predictor is the
  pair \<open>(value 1 1, value level1 level2)\<close> of the two-level formula (\<open>spec_two\<close>). This
  holds for every number type.
\<close>

theorem C2_two_level_formula:
  assumes "key s = ''pcogstate''"
    and "intervention_levels s ''pcogstate_1'' = Some level1"
    and "intervention_levels s ''pcogstate_2'' = Some level2"
  shows "\<exists>s'. year_body year s = Inr s' \<and>
      year_inc s' = year - 2024 \<and>
      b_cons s' = spec_lookup (beta s) ''_cons'' \<and>
      b_year s' = spec_lookup (beta s) (str_int (year - 2024) @ ''.year_inc'') \<and>
      b_iv1 s' = spec_lookup (beta s) ''ivparm1'' \<and>
      b_year_iv1 s' = spec_lookup (beta s) (str_int (year - 2024) @ ''.year_inc#c.ivparm1'') \<and>
      b_iv2 s' = spec_lookup (beta s) ''ivparm2'' \<and>
      b_year_iv2 s' = spec_lookup (beta s) (str_int (year - 2024) @ ''.year_inc#c.ivparm2'') \<and>
      b_iv1_iv2 s' = spec_lookup (beta s) ''c.ivparm1#c.ivparm2'' \<and>
      b_year_iv1_iv2 s' =
        spec_lookup (beta s) (str_int (year - 2024) @ ''.year_inc#c.ivparm1#c.ivparm2'') \<and>
      predictor year s = Inr (spec_two (beta s) year level1 level2)"
  using assms
  by (simp add: year_body_pcogstate coef_spec_lookup predictor_eq predict_cases_def)

theorem C2_two_level_formula_witness:
  "key env_two = ''pcogstate'' \<and> intervention_levels env_two ''pcogstate_1'' = Some (1 / 2) \<and>
   intervention_levels env_two ''pcogstate_2'' = Some (3 / 4) \<and>
   predictor 2026 env_two = Inr (95 / 8, 767 / 64)"
proof -
  have k: "key env_two = ''pcogstate''"
    by (simp add: env_two_def blank_env_def)
  have l1: "intervention_levels env_two ''pcogstate_1'' = Some (1 / 2)"
    by (simp add: env_two_def blank_env_def)
  have l2: "intervention_levels env_two ''pcogstate_2'' = Some (3 / 4)"
    by (simp add: env_two_def blank_env_def)
  have "spec_two (beta env_two) 2026 (1 / 2) (3 / 4) = (95 / 8, 767 / 64)"
    by (simp add: spec_two_def spec_lookup_def env_two_def blank_env_def table_two_def str_int_2)
  with C2_two_level_formula [OF k l1 l2, of 2026] k l1 l2 show ?thesis by auto
qed

text \<open>
  C3. The two-level formula is used exactly for the key \<open>pcogstate\<close>: with that key
  the predictor is the two-level pair, with any other key it is the single-level pair.
  With any other key the predictor does not change when an entry of the table under one
  of the four names \<open>ivparm2\<close>, \<open>{Y}.year_inc#c.ivparm2\<close>, \<open>c.ivparm1#c.ivparm2\<close>,
  \<open>{Y}.year_inc#c.ivparm1#c.ivparm2\<close> (any \<open>Y\<close>) is added, changed or removed.
\<close>

theorem C3_variant_selection:
  "(key s = ''pcogstate'' \<longrightarrow>
      intervention_levels s ''pcogstate_1'' = Some level1 \<longrightarrow>
      intervention_levels s ''pcogstate_2'' = Some level2 \<longrightarrow>
      predictor year s = Inr (spec_two (beta s) year level1 level2)) \<and>
   (key s \<noteq> ''pcogstate'' \<longrightarrow>
      (intervention_levels s (key s) = Some level1 \<longrightarrow>
         predictor year s = Inr (spec_single (beta s) year level1)) \<and>
      (\<forall>k \<in> set (ivparm2_family Y). \<forall>v.
         predictor year (s\<lparr>beta := (beta s)(k := v)\<rparr>) = predictor year s))"
  by (simp add: predictor_eq predict_cases_ignores_ivparm2) (simp add: predict_cases_def)

text \<open>
  The witness takes one table that has all eight names: under the key \<open>pcogstate\<close>
  the predictor is the two-level pair, under the key \<open>pdiabe\<close> it is the single-level
  pair of the four single-level entries, with \<open>ivparm2\<close> present, removed or set to 100.
\<close>

theorem C3_variant_selection_witness:
  "key env_two = ''pcogstate'' \<and>
   intervention_levels env_two ''pcogstate_1'' = Some (1 / 2) \<and>
   intervention_levels env_two ''pcogstate_2'' = Some (3 / 4) \<and>
   predictor 2026 env_two = Inr (95 / 8, 767 / 64) \<and>
   key env_mixed \<noteq> ''pcogstate'' \<and>
   intervention_levels env_mixed (key env_mixed) = Some (17 / 20) \<and>
   beta env_mixed = beta env_two \<and>
   predictor 2026 env_mixed = Inr (13 / 2, 287 / 40) \<and>
   ''ivparm2'' \<in> set (ivparm2_family 2) \<and>
   predictor 2026 (env_mixed\<lparr>beta := (beta env_mixed)(''ivparm2'' := None)\<rparr>) = Inr (13 / 2, 287 / 40) \<and>
   predictor 2026 (env_mixed\<lparr>beta := (beta env_mixed)(''ivparm2'' \<mapsto> 100)\<rparr>) = Inr (13 / 2, 287 / 40)"
proof -
  have two: "key env_two = ''pcogstate''" "intervention_levels env_two ''pcogstate_1'' = Some (1 / 2)"
    "intervention_levels env_two ''pcogstate_2'' = Some (3 / 4)" "beta env_two = table_two"
    by (simp_all add: env_two_def blank_env_def)
  have mixed: "key env_mixed \<noteq> ''pcogstate''"
    "intervention_levels env_mixed (key env_mixed) = Some (17 / 20)" "beta env_mixed = table_two"
    by (simp_all add: env_mixed_def blank_env_def)
  have fam: "''ivparm2'' \<in> set (ivparm2_family 2)"
    by (simp add: ivparm2_family_def)
  from C3_variant_selection [where s = env_two and ?level1.0 = "1 / 2" and ?level2.0 = "3 / 4"
      and year = 2026] two
  have a: "predictor 2026 env_two = Inr (95 / 8, 767 / 64)"
    by (simp add: spec_two_table_two)
  from C3_variant_selection [where s = env_mixed and ?level1.0 = "17 / 20" and year = 2026 and Y = 2] mixed
  have b: "predictor 2026 env_mixed = Inr (13 / 2, 287 / 40)"
    and c: "\<forall>k \<in> set (ivparm2_family 2). \<forall>v.
       predictor 2026 (env_mixed\<lparr>beta := (beta env_mixed)(k := v)\<rparr>) = predictor 2026 env_mixed"
    by (simp_all add: spec_single_table_two)
  from c fam b have "predictor 2026 (env_mixed\<lparr>beta := (beta env_mixed)(''ivparm2'' := None)\<rparr>)
      = Inr (13 / 2, 287 / 40)"
    and "predictor 2026 (env_mixed\<lparr>beta := (beta env_mixed)(''ivparm2'' := Some 100)\<rparr>)
      = Inr (13 / 2, 287 / 40)"
    by simp_all
  with two mixed fam a b show ?thesis by simp
qed

text \<open>
  C4. When the table has no entry under \<open>k\<close>, the predictor is the same on the table
  extended with \<open>k\<close> mapped to 0, for every key (so in both variants), year and levels.
  No table makes the loop body fail: it succeeds exactly when the levels it reads are
  there, whatever the table holds.
\<close>

theorem C4_zero_default:
  assumes "beta s k = None"
  shows "predictor year (s\<lparr>beta := (beta s)(k \<mapsto> 0)\<rparr>) = predictor year s \<and>
    ((\<exists>r. predictor year s = Inr r) \<longleftrightarrow> levels_present (key s) (intervention_levels s))"
proof
  from assms show "predictor year (s\<lparr>beta := (beta s)(k \<mapsto> 0)\<rparr>) = predictor year s"
    by (simp add: predictor_eq predict_cases_fill_zero)
  show "(\<exists>r. predictor year s = Inr r) \<longleftrightarrow> levels_present (key s) (intervention_levels s)"
    unfolding predictor_eq by (rule predict_cases_Inr_iff)
qed

theorem C4_zero_default_witness:
  "beta env_sparse ''ivparm2'' = None \<and>
   predictor 2026 (env_sparse\<lparr>beta := (beta env_sparse)(''ivparm2'' \<mapsto> 0)\<rparr>) = Inr (13 / 2, 35 / 4) \<and>
   predictor 2026 env_sparse = Inr (13 / 2, 35 / 4) \<and>
   levels_present (key env_sparse) (intervention_levels env_sparse)"
proof -
  have absent: "beta env_sparse ''ivparm2'' = None"
    by (simp add: env_sparse_def blank_env_def table_P2_def)
  have here: "predictor 2026 env_sparse = Inr (13 / 2, 35 / 4)"
    by (simp add: predictor_eq predict_cases_def env_sparse_def blank_env_def spec_two_table_P2)
  have levels: "levels_present (key env_sparse) (intervention_levels env_sparse)"
    by (simp add: levels_present_def env_sparse_def blank_env_def)
  from C4_zero_default [OF absent, of 2026] absent here levels show ?thesis by simp
qed

text \<open>
  C5. When an intervention is processed, the three columns stored for it have one entry
  for each year of \<open>year_range\<close>; at every position \<open>j\<close> the Baseline and Intervention
  entries are the two outputs of the predictor for the year \<open>year_range ! j\<close>, and the
  Change entry is the second minus the first. This holds for every number type, so the
  subtraction is the program's own, rounded or not.
\<close>

theorem C5_change_is_difference:
  assumes "INTERVENTION_OPTIONS d = Some k" and "df_dict k = Some frame"
    and "frame target_col = Some tbl"
    and "intervention_body df_dict target_col year_range d s = Inr s'"
    and "j < length year_range"
  shows "\<exists>b i bs is cs.
     predictor (year_range ! j) (s\<lparr>key := k, beta := tbl\<rparr>) = Inr (b, i) \<and>
     results_df s' (''Baseline ('' @ d @ '')'') = Some bs \<and>
     results_df s' (''Intervention ('' @ d @ '')'') = Some is \<and>
     results_df s' (''Change ('' @ d @ '')'') = Some cs \<and>
     length bs = length year_range \<and> length is = length year_range \<and>
     length cs = length year_range \<and>
     bs ! j = b \<and> is ! j = i \<and> cs ! j = i - b"
proof -
  from intervention_body_columns [OF assms(1-4)] obtain ps
    where ps: "series_cases k (intervention_levels s) tbl year_range = Inr ps"
      and cols: "results_df s' (''Baseline ('' @ d @ '')'') = Some (map fst ps)"
        "results_df s' (''Intervention ('' @ d @ '')'') = Some (map snd ps)"
        "results_df s' (''Change ('' @ d @ '')'') = Some (map (\<lambda>p. snd p - fst p) ps)"
    by blast
  from series_cases_nth [OF ps] assms(5)
  have len: "length ps = length year_range"
    and nth: "predict_cases k (intervention_levels s) tbl (year_range ! j) = Inr (ps ! j)"
    by simp_all
  have "predictor (year_range ! j) (s\<lparr>key := k, beta := tbl\<rparr>) = Inr (fst (ps ! j), snd (ps ! j))"
    by (simp add: predictor_eq nth)
  with cols len assms(5) show ?thesis by simp
qed

theorem C5_change_is_difference_witness:
  "INTERVENTION_OPTIONS ''Diabetes Incidence Reduction'' = Some ''pdiabe'' \<and>
   df_dict_example ''pdiabe'' = Some [''p_diabe_all'' \<mapsto> table_P2] \<and>
   [''p_diabe_all'' \<mapsto> table_P2] ''p_diabe_all'' = Some table_P2 \<and>
   (0::nat) < length [2026, 2028 :: int] \<and>
   (\<exists>s' bs is cs. intervention_body df_dict_example ''p_diabe_all'' [2026, 2028]
          ''Diabetes Incidence Reduction'' env_sidebar = Inr s' \<and>
      results_df s' ''Baseline (Diabetes Incidence Reduction)'' = Some bs \<and>
      results_df s' ''Intervention (Diabetes Incidence Reduction)'' = Some is \<and>
      results_df s' ''Change (Diabetes Incidence Reduction)'' = Some cs \<and>
      bs ! 0 = 13 / 2 \<and> is ! 0 = 287 / 40 \<and> cs ! 0 = 287 / 40 - 13 / 2)"
proof -
  have opt: "INTERVENTION_OPTIONS ''Diabetes Incidence Reduction'' = Some ''pdiabe''"
    by (simp add: INTERVENTION_OPTIONS_def)
  have frame: "df_dict_example ''pdiabe'' = Some [''p_diabe_all'' \<mapsto> table_P2]"
    by (simp add: df_dict_example_def)
  have col: "[''p_diabe_all'' \<mapsto> table_P2] ''p_diabe_all'' = Some table_P2"
    by simp
  have j: "(0::nat) < length [2026, 2028 :: int]"
    by simp
  have "levels_present ''pdiabe'' (intervention_levels env_sidebar)"
    by (simp add: levels_present_def env_sidebar_def blank_env_def)
  from intervention_body_Inr [where df_dict = df_dict_example and k = "''pdiabe''"
      and frame = "[''p_diabe_all'' \<mapsto> table_P2]" and target_col = "''p_diabe_all''",
      OF opt frame col this]
  obtain s' where run: "intervention_body df_dict_example ''p_diabe_all'' [2026, 2028]
      ''Diabetes Incidence Reduction'' env_sidebar = Inr s'"
    by blast
  have val: "predictor 2026 (env_sidebar\<lparr>key := ''pdiabe'', beta := table_P2\<rparr>)
      = Inr (13 / 2, 287 / 40)"
    by (simp add: predictor_eq predict_cases_def env_sidebar_def blank_env_def spec_single_def
        spec_lookup_def table_P2_def str_int_2)
  from C5_change_is_difference [where df_dict = df_dict_example and k = "''pdiabe''"
      and frame = "[''p_diabe_all'' \<mapsto> table_P2]" and target_col = "''p_diabe_all''",
      OF opt frame col run j] val
  have "\<exists>bs is cs.
      results_df s' ''Baseline (Diabetes Incidence Reduction)'' = Some bs \<and>
      results_df s' ''Intervention (Diabetes Incidence Reduction)'' = Some is \<and>
      results_df s' ''Change (Diabetes Incidence Reduction)'' = Some cs \<and>
      bs ! 0 = 13 / 2 \<and> is ! 0 = 287 / 40 \<and> cs ! 0 = 287 / 40 - 13 / 2"
    by auto
  with run opt frame col j show ?thesis by blast
qed

text \<open>
  C6. An intervention whose dataset is not loaded, or whose dataset has no column
  \<open>target_col\<close>, adds one message and changes nothing else but \<open>key\<close> and \<open>df\<close>; the
  loop goes on with the remaining interventions, whose results are what they would be had
  the skipped one not been selected. When no selected intervention is usable the run ends
  in \<open>Stopped\<close> with one message for each, and no chart.
\<close>

theorem C6_skip_and_stop:
  "(INTERVENTION_OPTIONS d = Some k \<longrightarrow> df_dict k = None \<longrightarrow>
      intervention_body df_dict target_col year_range d s =
        Inr (s\<lparr>key := k, df := None, errors := errors s @ [not_loaded_message k]\<rparr>)) \<and>
   (INTERVENTION_OPTIONS d = Some k \<longrightarrow> df_dict k = Some frame \<longrightarrow> frame target_col = None \<longrightarrow>
      intervention_body df_dict target_col year_range d s =
        Inr (s\<lparr>key := k, df := Some frame,
               errors := errors s @ [no_column_message target_col k]\<rparr>)) \<and>
   (INTERVENTION_OPTIONS d = Some k \<longrightarrow> \<not> usable df_dict target_col d \<longrightarrow>
      intervention_loop df_dict target_col year_range (d # rest) s =
        intervention_loop df_dict target_col year_range rest
          (s\<lparr>key := k, df := df_dict k,
             errors := errors s @ [skip_message df_dict target_col d]\<rparr>) \<and>
      on_result (\<lambda>s'. (results_df s', valid_plot s'))
          (intervention_loop df_dict target_col year_range (d # rest) s) =
        on_result (\<lambda>s'. (results_df s', valid_plot s'))
          (intervention_loop df_dict target_col year_range rest s)) \<and>
   (OUTCOME_OPTIONS selected_outcome = Some outcome_code \<longrightarrow>
    SUBGROUP_OPTIONS selected_subgroup = Some subgroup_code \<longrightarrow>
    set selected \<subseteq> dom INTERVENTION_OPTIONS \<longrightarrow>
    (\<forall>x \<in> set selected. \<not> usable df_dict (outcome_code @ ''_'' @ subgroup_code) x) \<longrightarrow>
      run_simulation df_dict selected_outcome selected_subgroup selected start_year end_year s =
        Inr (Stopped (map (skip_message df_dict (outcome_code @ ''_'' @ subgroup_code)) selected)))"
proof (intro conjI impI)
  assume k: "INTERVENTION_OPTIONS d = Some k" and "df_dict k = None"
  then show "intervention_body df_dict target_col year_range d s =
      Inr (s\<lparr>key := k, df := None, errors := errors s @ [not_loaded_message k]\<rparr>)"
    by (simp add: intervention_body_def Let_def)
next
  assume "INTERVENTION_OPTIONS d = Some k" and "df_dict k = Some frame" and "frame target_col = None"
  then show "intervention_body df_dict target_col year_range d s =
      Inr (s\<lparr>key := k, df := Some frame, errors := errors s @ [no_column_message target_col k]\<rparr>)"
    by (simp add: intervention_body_def Let_def)
next
  assume k: "INTERVENTION_OPTIONS d = Some k" and u: "\<not> usable df_dict target_col d"
  show step: "intervention_loop df_dict target_col year_range (d # rest) s =
      intervention_loop df_dict target_col year_range rest
        (s\<lparr>key := k, df := df_dict k, errors := errors s @ [skip_message df_dict target_col d]\<rparr>)"
    by (rule intervention_loop_skip [OF k u])
  show "on_result (\<lambda>s'. (results_df s', valid_plot s'))
          (intervention_loop df_dict target_col year_range (d # rest) s) =
        on_result (\<lambda>s'. (results_df s', valid_plot s'))
          (intervention_loop df_dict target_col year_range rest s)"
    unfolding step by (rule intervention_loop_cong) simp_all
next
  assume "OUTCOME_OPTIONS selected_outcome = Some outcome_code"
    and "SUBGROUP_OPTIONS selected_subgroup = Some subgroup_code"
    and "set selected \<subseteq> dom INTERVENTION_OPTIONS"
    and "\<forall>x \<in> set selected. \<not> usable df_dict (outcome_code @ ''_'' @ subgroup_code) x"
  then show "run_simulation df_dict selected_outcome selected_subgroup selected start_year end_year s =
      Inr (Stopped (map (skip_message df_dict (outcome_code @ ''_'' @ subgroup_code)) selected))"
    by (rule run_simulation_stops)
qed

theorem C6_skip_and_stop_witness:
  "INTERVENTION_OPTIONS ''Heart Disease Incidence Reduction'' = Some ''phearte'' \<and>
   df_dict_example ''phearte'' = None \<and>
   intervention_body df_dict_example ''p_diabe_all'' [2026] ''Heart Disease Incidence Reduction''
       env_sidebar =
     Inr (env_sidebar\<lparr>key := ''phearte'', df := None,
            errors := [''Dataset for phearte not loaded.'']\<rparr>) \<and>
   INTERVENTION_OPTIONS ''MCI/Dementia Incidence Reduction'' = Some ''pcogstate'' \<and>
   df_dict_example ''pcogstate'' = Some [''n_cogstate1_f'' \<mapsto> table_two] \<and>
   [''n_cogstate1_f'' \<mapsto> table_two] ''p_diabe_all'' = None \<and>
   intervention_body df_dict_example ''p_diabe_all'' [2026] ''MCI/Dementia Incidence Reduction''
       env_sidebar =
     Inr (env_sidebar\<lparr>key := ''pcogstate'', df := Some [''n_cogstate1_f'' \<mapsto> table_two],
            errors := [''Column '' @ [CHR 0x27] @ ''p_diabe_all'' @ [CHR 0x27] @
                       '' not found in pcogstate dataset.'']\<rparr>) \<and>
   \<not> usable df_dict_example ''p_diabe_all'' ''Heart Disease Incidence Reduction'' \<and>
   on_result (\<lambda>s'. (results_df s', valid_plot s'))
       (intervention_loop df_dict_example ''p_diabe_all'' [2026]
          [''Heart Disease Incidence Reduction'', ''Diabetes Incidence Reduction''] env_sidebar) =
     on_result (\<lambda>s'. (results_df s', valid_plot s'))
       (intervention_loop df_dict_example ''p_diabe_all'' [2026]
          [''Diabetes Incidence Reduction''] env_sidebar) \<and>
   OUTCOME_OPTIONS ''Diabetes Prevalence (%)'' = Some ''p_diabe'' \<and>
   SUBGROUP_OPTIONS ''All'' = Some ''all'' \<and>
   set [''Heart Disease Incidence Reduction'', ''MCI/Dementia Incidence Reduction'']
     \<subseteq> dom INTERVENTION_OPTIONS \<and>
   run_simulation df_dict_example ''Diabetes Prevalence (%)'' ''All''
       [''Heart Disease Incidence Reduction'', ''MCI/Dementia Incidence Reduction''] 2026 2050
       env_sidebar =
     Inr (Stopped [''Dataset for phearte not loaded.'',
            ''Column '' @ [CHR 0x27] @ ''p_diabe_all'' @ [CHR 0x27] @
            '' not found in pcogstate dataset.''])"
proof -
  have none: "df_dict_example ''phearte'' = None"
    and some: "df_dict_example ''pcogstate'' = Some [''n_cogstate1_f'' \<mapsto> table_two]"
    and col: "[''n_cogstate1_f'' \<mapsto> table_two] ''p_diabe_all'' = None"
    by (simp_all add: df_dict_example_def)
  have dom: "set [''Heart Disease Incidence Reduction'', ''MCI/Dementia Incidence Reduction'']
     \<subseteq> dom INTERVENTION_OPTIONS"
    by (simp add: dom_def example_lookups)
  have all: "\<forall>x \<in> set [''Heart Disease Incidence Reduction'', ''MCI/Dementia Incidence Reduction''].
     \<not> usable df_dict_example (''p_diabe'' @ ''_'' @ ''all'') x"
    using example_unusable by simp
  have e: "errors env_sidebar = []"
    by (simp add: env_sidebar_def blank_env_def)
  note a = C6_skip_and_stop [where d = "''Heart Disease Incidence Reduction''" and k = "''phearte''"
      and df_dict = df_dict_example and target_col = "''p_diabe_all''" and year_range = "[2026]"
      and s = env_sidebar and rest = "[''Diabetes Incidence Reduction'']"
      and selected_outcome = "''Diabetes Prevalence (%)''" and outcome_code = "''p_diabe''"
      and selected_subgroup = "''All''" and subgroup_code = "''all''"
      and selected = "[''Heart Disease Incidence Reduction'', ''MCI/Dementia Incidence Reduction'']"
      and start_year = 2026 and end_year = 2050]
  note b = C6_skip_and_stop [where d = "''MCI/Dementia Incidence Reduction''" and k = "''pcogstate''"
      and df_dict = df_dict_example and target_col = "''p_diabe_all''" and year_range = "[2026]"
      and s = env_sidebar and frame = "[''n_cogstate1_f'' \<mapsto> table_two]"]
  from a none example_lookups(1) e
  have 1: "intervention_body df_dict_example ''p_diabe_all'' [2026]
      ''Heart Disease Incidence Reduction'' env_sidebar =
     Inr (env_sidebar\<lparr>key := ''phearte'', df := None,
            errors := [''Dataset for phearte not loaded.'']\<rparr>)"
    by (simp add: not_loaded_message_def)
  from b some col example_lookups(2) e
  have 2: "intervention_body df_dict_example ''p_diabe_all'' [2026]
      ''MCI/Dementia Incidence Reduction'' env_sidebar =
     Inr (env_sidebar\<lparr>key := ''pcogstate'', df := Some [''n_cogstate1_f'' \<mapsto> table_two],
            errors := [''Column '' @ [CHR 0x27] @ ''p_diabe_all'' @ [CHR 0x27] @
                       '' not found in pcogstate dataset.'']\<rparr>)"
    by (simp add: no_column_message_def)
  from a example_lookups(1) example_unusable(1)
  have 3: "on_result (\<lambda>s'. (results_df s', valid_plot s'))
       (intervention_loop df_dict_example ''p_diabe_all'' [2026]
          [''Heart Disease Incidence Reduction'', ''Diabetes Incidence Reduction''] env_sidebar) =
     on_result (\<lambda>s'. (results_df s', valid_plot s'))
       (intervention_loop df_dict_example ''p_diabe_all'' [2026]
          [''Diabetes Incidence Reduction''] env_sidebar)"
    by blast
  from a example_lookups(4,5) dom all
  have 4: "run_simulation df_dict_example ''Diabetes Prevalence (%)'' ''All''
       [''Heart Disease Incidence Reduction'', ''MCI/Dementia Incidence Reduction''] 2026 2050
       env_sidebar =
     Inr (Stopped (map (skip_message df_dict_example (''p_diabe'' @ ''_'' @ ''all''))
        [''Heart Disease Incidence Reduction'', ''MCI/Dementia Incidence Reduction'']))"
    by blast
  have 5: "map (skip_message df_dict_example (''p_diabe'' @ ''_'' @ ''all''))
        [''Heart Disease Incidence Reduction'', ''MCI/Dementia Incidence Reduction''] =
      [''Dataset for phearte not loaded.'',
            ''Column '' @ [CHR 0x27] @ ''p_diabe_all'' @ [CHR 0x27] @
            '' not found in pcogstate dataset.'']"
    using example_messages by simp
  from 1 2 3 4 5 none some col dom example_lookups example_unusable(1) show ?thesis
    by simp
qed

text \<open>
  C7, as the specification states it, fails. With \<open>ivparm1\<close>, \<open>ivparm2\<close> and
  \<open>c.ivparm1#c.ivparm2\<close> equal to 1, \<open>_cons\<close> equal to 0 and the four coefficients with
  a year term equal to 0, the two-level baseline for 2026 is 3, not 4. Reading "all
  interaction coefficients" as including the three year interactions gives 6, not 4.
\<close>

theorem C7_counterexample:
  "on_result fst (predictor 2026 (env_P4 table_P4)) = Inr 3 \<and>
   on_result fst (predictor 2026 (env_P4 table_P4)) \<noteq> Inr 4 \<and>
   on_result fst (predictor 2026 (env_P4 table_P4_all)) = Inr 6 \<and>
   on_result fst (predictor 2026 (env_P4 table_P4_all)) \<noteq> Inr 4"
  by (simp add: predictor_eq predict_cases_def env_P4_def blank_env_def spec_two_def
      spec_lookup_def table_P4_def table_P4_all_def str_int_2)

text \<open>
  C7, amended. For a two-level table with the two main-effect coefficients and the
  pairwise interaction coefficient equal to 1, \<open>_cons\<close> equal to 0 and the four
  coefficients with a year term equal to 0 (present or absent), the two-level baseline
  is exactly 3, the value of the documented formula, whatever the two levels are.
\<close>

theorem C7_two_level_baseline:
  fixes s :: "real env"
  assumes "key s = ''pcogstate''"
    and "intervention_levels s ''pcogstate_1'' = Some level1"
    and "intervention_levels s ''pcogstate_2'' = Some level2"
    and "coef (beta s) ''_cons'' = 0"
    and "coef (beta s) ''ivparm1'' = 1"
    and "coef (beta s) ''ivparm2'' = 1"
    and "coef (beta s) ''c.ivparm1#c.ivparm2'' = 1"
    and "coef (beta s) (str_int (year - 2024) @ ''.year_inc'') = 0"
    and "coef (beta s) (str_int (year - 2024) @ ''.year_inc#c.ivparm1'') = 0"
    and "coef (beta s) (str_int (year - 2024) @ ''.year_inc#c.ivparm2'') = 0"
    and "coef (beta s) (str_int (year - 2024) @ ''.year_inc#c.ivparm1#c.ivparm2'') = 0"
  shows "on_result fst (predictor year s) = Inr 3"
  using assms
  by (simp add: predictor_eq predict_cases_def spec_two_def coef_spec_lookup)

theorem C7_two_level_baseline_witness:
  "key (env_P4 table_P4) = ''pcogstate'' \<and>
   intervention_levels (env_P4 table_P4) ''pcogstate_1'' = Some 1 \<and>
   intervention_levels (env_P4 table_P4) ''pcogstate_2'' = Some 1 \<and>
   coef (beta (env_P4 table_P4)) ''_cons'' = 0 \<and>
   coef (beta (env_P4 table_P4)) ''ivparm1'' = 1 \<and>
   coef (beta (env_P4 table_P4)) ''ivparm2'' = 1 \<and>
   coef (beta (env_P4 table_P4)) ''c.ivparm1#c.ivparm2'' = 1 \<and>
   coef (beta (env_P4 table_P4)) (str_int (2026 - 2024) @ ''.year_inc'') = 0 \<and>
   coef (beta (env_P4 table_P4)) (str_int (2026 - 2024) @ ''.year_inc#c.ivparm1'') = 0 \<and>
   coef (beta (env_P4 table_P4)) (str_int (2026 - 2024) @ ''.year_inc#c.ivparm2'') = 0 \<and>
   coef (beta (env_P4 table_P4)) (str_int (2026 - 2024) @ ''.year_inc#c.ivparm1#c.ivparm2'') = 0 \<and>
   on_result fst (predictor 2026 (env_P4 table_P4)) = Inr 3"
proof -
  have h: "key (env_P4 table_P4) = ''pcogstate''"
    "intervention_levels (env_P4 table_P4) ''pcogstate_1'' = Some 1"
    "intervention_levels (env_P4 table_P4) ''pcogstate_2'' = Some 1"
    "coef (beta (env_P4 table_P4)) ''_cons'' = 0"
    "coef (beta (env_P4 table_P4)) ''ivparm1'' = 1"
    "coef (beta (env_P4 table_P4)) ''ivparm2'' = 1"
    "coef (beta (env_P4 table_P4)) ''c.ivparm1#c.ivparm2'' = 1"
    "coef (beta (env_P4 table_P4)) (str_int (2026 - 2024) @ ''.year_inc'') = 0"
    "coef (beta (env_P4 table_P4)) (str_int (2026 - 2024) @ ''.year_inc#c.ivparm1'') = 0"
    "coef (beta (env_P4 table_P4)) (str_int (2026 - 2024) @ ''.year_inc#c.ivparm2'') = 0"
    "coef (beta (env_P4 table_P4)) (str_int (2026 - 2024) @ ''.year_inc#c.ivparm1#c.ivparm2'') = 0"
    by (simp_all add: env_P4_def blank_env_def coef_def table_P4_def str_int_2)
  from C7_two_level_baseline [OF h] h show ?thesis by simp
qed

text \<open>
  In double precision the same baseline is 3 as well: every intermediate sum is a small
  integer.
\<close>

lemma two_level_baseline_binary64:
  "on_result fst (predictor 2026 (blank_env\<lparr>intervention_levels :=
       [''pcogstate_1'' \<mapsto> B64 1, ''pcogstate_2'' \<mapsto> B64 1],
     key := ''pcogstate'', beta := table_P4_binary64\<rparr>)) = Inr (B64 3)"
  by code_simp

text \<open>
  C8, as the specification states it, fails on the program's numbers. For the table of
  P2, the year 2026 and level 0.85, the three columns that the program computes in double
  precision are not 6.5, 7.175 and 0.675, whether the three decimals are read as the
  doubles they denote or as exact values: the change differs.
\<close>

theorem C8_counterexample:
  "on_result (columns ''Diabetes Incidence Reduction'') run_P3_binary64 \<noteq>
     Inr (Some [literal (65 / 10)], Some [literal (7175 / 1000)], Some [literal (675 / 1000)]) \<and>
   on_result (columns ''Diabetes Incidence Reduction'') run_P3_binary64 \<noteq>
     Inr (Some [B64 (65 / 10)], Some [B64 (7175 / 1000)], Some [B64 (675 / 1000)])"
  by code_simp

text \<open>
  C8, amended. In exact arithmetic the baseline is 6.5, the intervention value 7.175
  and the change 0.675. In double precision the baseline is 6.5, the intervention value
  is the double that the literal 7.175 denotes, and the change is their difference
  \<open>759982437118771 / 2 ^ 50\<close>, which Python prints as 0.6749999999999998; it is
  within \<open>2 ^ -52\<close> of 0.675 and is not the double that the literal 0.675 denotes.
\<close>

theorem C8_worked_example:
  "on_result (columns ''Diabetes Incidence Reduction'') run_P3 =
     Inr (Some [65 / 10], Some [7175 / 1000], Some [675 / 1000]) \<and>
   on_result (columns ''Diabetes Incidence Reduction'') run_P3_binary64 =
     Inr (Some [literal (65 / 10)], Some [literal (7175 / 1000)],
          Some [literal (7175 / 1000) - literal (65 / 10)]) \<and>
   literal (65 / 10) = B64 (65 / 10) \<and>
   literal (7175 / 1000) - literal (65 / 10) = B64 (759982437118771 / 2 ^ 50) \<and>
   \<bar>759982437118771 / 2 ^ 50 - 675 / 1000\<bar> < (1 / 2 ^ 52 :: rat)"
  by code_simp

text \<open>
  C9. The predictor depends on the namespace only through the key, the table and the
  levels: two namespaces that agree on these three give the same outputs, whatever the
  other variables hold from earlier passes. A pass of the loop body leaves the key, the
  table and the levels as they were, and a prediction made after it is the prediction
  that would have been made before it.
\<close>

theorem C9_pure:
  "(key s = key t \<and> beta s = beta t \<and> intervention_levels s = intervention_levels t \<longrightarrow>
      predictor year s = predictor year t) \<and>
   (year_body year s = Inr s' \<longrightarrow>
      beta s' = beta s \<and> intervention_levels s' = intervention_levels s \<and> key s' = key s \<and>
      predictor year' s' = predictor year' s)"
  by (simp add: predictor_eq year_body_frame)

theorem C9_pure_witness:
  "key (env_P3\<lparr>b_iv2 := 99, base_val := 5, baseline_values := [1, 2]\<rparr>) = key env_P3 \<and>
   beta (env_P3\<lparr>b_iv2 := 99, base_val := 5, baseline_values := [1, 2]\<rparr>) = beta env_P3 \<and>
   intervention_levels (env_P3\<lparr>b_iv2 := 99, base_val := 5, baseline_values := [1, 2]\<rparr>)
     = intervention_levels env_P3 \<and>
   predictor 2026 (env_P3\<lparr>b_iv2 := 99, base_val := 5, baseline_values := [1, 2]\<rparr>)
     = predictor 2026 env_P3 \<and>
   (\<exists>s'. year_body 2028 env_P3 = Inr s' \<and> beta s' = beta env_P3 \<and>
      intervention_levels s' = intervention_levels env_P3 \<and> key s' = key env_P3 \<and>
      predictor 2026 s' = predictor 2026 env_P3)"
proof -
  have k: "key env_P3 \<noteq> ''pcogstate''"
    and l: "intervention_levels env_P3 (key env_P3) = Some (17 / 20)"
    by (simp_all add: env_P3_def blank_env_def)
  from year_body_standard [OF k l, of 2028] obtain s' where body: "year_body 2028 env_P3 = Inr s'"
    by blast
  from C9_pure [where s = "env_P3\<lparr>b_iv2 := 99, base_val := 5, baseline_values := [1, 2]\<rparr>"
      and t = env_P3 and year = 2026]
  have stale: "predictor 2026 (env_P3\<lparr>b_iv2 := 99, base_val := 5, baseline_values := [1, 2]\<rparr>)
     = predictor 2026 env_P3"
    by simp
  from C9_pure [where s = env_P3 and year = 2028 and s' = s' and year' = 2026] body
  have "beta s' = beta env_P3 \<and> intervention_levels s' = intervention_levels env_P3 \<and>
    key s' = key env_P3 \<and> predictor 2026 s' = predictor 2026 env_P3"
    by simp
  with stale body show ?thesis by simp
qed



end
